theory Spec2Isabelle
  imports Complex_Main
begin

section \<open>Errors, machine integers and strings\<close>

text \<open>
  The import code of \<^verbatim>\<open>src/dagmc.cpp\<close> stops in three ways besides returning:
  \<^item> \<^verbatim>\<open>fatal_error(msg)\<close>, which reports the message and ends the process;
  \<^item> a C++ exception that nothing catches (\<^verbatim>\<open>std::stoi\<close>, \<^verbatim>\<open>std::stod\<close> and
    \<^verbatim>\<open>std::map::at\<close> throw \<^verbatim>\<open>std::invalid_argument\<close> or \<^verbatim>\<open>std::out_of_range\<close>);
  \<^item> undefined behaviour: \<^verbatim>\<open>std::vector::operator[]\<close> past the end of the vector, and
    overflow of a signed \<^verbatim>\<open>int\<close> increment.
  Each is a value of the type \<open>error\<close>; none is hidden behind a total HOL function.
\<close>

datatype exn = invalid_argument | out_of_range

datatype ub = OutOfBoundsRead | SignedOverflow

datatype error = FatalError string | Uncaught exn | Undefined ub

text \<open>
  \<^verbatim>\<open>int\<close> and \<^verbatim>\<open>int32_t\<close> are 32 bits wide. Values are kept as \<open>int\<close>; the two places
  where the width shows are written out: the range check of \<^verbatim>\<open>std::stoi\<close> and the
  increment \<^verbatim>\<open>x + 1\<close> / \<^verbatim>\<open>x++\<close>, which is undefined at \<open>INT_MAX\<close>.
\<close>

definition INT_MAX :: int where
  "INT_MAX = 2147483647"

definition INT_MIN :: int where
  "INT_MIN = - 2147483648"

definition incr :: "int \<Rightarrow> error + int" where
  "incr x = (if x < INT_MAX then Inr (x + 1) else Inl (Undefined SignedOverflow))"

text \<open>
  Decimal rendering of an \<^verbatim>\<open>int\<close>, as \<^verbatim>\<open>operator<<\<close> on a stream and the
  \<^verbatim>\<open>{}\<close> placeholder of \<^verbatim>\<open>fmt::format\<close> produce it.
\<close>

definition digit_char :: "nat \<Rightarrow> char" where
  "digit_char d = ''0123456789'' ! d"

function show_nat :: "nat \<Rightarrow> string" where
  "show_nat n = (if n < 10 then [digit_char n] else show_nat (n div 10) @ [digit_char (n mod 10)])"
  by pat_completeness auto
termination
  by (relation "measure id") auto

declare show_nat.simps [simp del]

definition show_int :: "int \<Rightarrow> string" where
  "show_int i = (if i < 0 then CHR ''-'' # show_nat (nat (- i)) else show_nat (nat i))"

text \<open>
  \<^verbatim>\<open>std::stoi(str)\<close> (base 10): leading white space is skipped, one sign is accepted,
  then the longest run of decimal digits is read and the rest of the string is ignored.
  No digit at all throws \<^verbatim>\<open>std::invalid_argument\<close>; a value outside \<^verbatim>\<open>int\<close> throws
  \<^verbatim>\<open>std::out_of_range\<close>.
\<close>

definition isspace :: "char \<Rightarrow> bool" where
  "isspace c = (c = CHR '' '' \<or> (9 \<le> (of_char c :: nat) \<and> (of_char c :: nat) \<le> 13))"

definition isdigit :: "char \<Rightarrow> bool" where
  "isdigit c = (48 \<le> (of_char c :: nat) \<and> (of_char c :: nat) \<le> 57)"

definition digits_value :: "string \<Rightarrow> int" where
  "digits_value ds = foldl (\<lambda>acc c. 10 * acc + (of_char c - 48)) 0 ds"

definition strip_sign :: "string \<Rightarrow> bool \<times> string" where
  "strip_sign s =
     (case s of
        [] \<Rightarrow> (False, [])
      | c # r \<Rightarrow> if c = CHR ''-'' then (True, r) else if c = CHR ''+'' then (False, r) else (False, s))"

definition leading_digits :: "string \<Rightarrow> string" where
  "leading_digits s = takeWhile isdigit (snd (strip_sign (dropWhile isspace s)))"

definition stoi :: "string \<Rightarrow> exn + int" where
  "stoi s =
     (let ds = leading_digits s;
          v = (if fst (strip_sign (dropWhile isspace s)) then - digits_value ds else digits_value ds)
      in if ds = [] then Inl invalid_argument
         else if v < INT_MIN \<or> INT_MAX < v then Inl out_of_range
         else Inr v)"

section \<open>The condensed listing of entity ids (lines 50-89)\<close>

text \<open>
  \<^verbatim>\<open>dagmc_ids_for_dim(dim)\<close> reads from the DagMC instance only the ids of the entities of
  the dimension, \<^verbatim>\<open>id_by_index(dim, 1) ... id_by_index(dim, n_cells)\<close>; the model takes
  that list. \<open>id_at\<close> is \<^verbatim>\<open>id_vec[i]\<close>: a read at or past \<^verbatim>\<open>id_vec.size()\<close> is undefined
  behaviour in C++ and is an error of the model.
\<close>

definition id_at :: "int list \<Rightarrow> nat \<Rightarrow> error + int" where
  "id_at id_vec i = (if i < length id_vec then Inr (id_vec ! i) else Inl (Undefined OutOfBoundsRead))"

text \<open>
  The \<^verbatim>\<open>while (i < n_cells)\<close> loop, with \<^verbatim>\<open>n_cells = id_vec.size()\<close>. Its state is
  \<^verbatim>\<open>i\<close>, \<^verbatim>\<open>start_id\<close> and the text written to \<^verbatim>\<open>out\<close> so far; \<^verbatim>\<open>stop_id\<close> is set anew
  at the head of every iteration. In the branch that prints a block, \<^verbatim>\<open>++i\<close> and the
  \<^verbatim>\<open>i++\<close> at the end of the body advance \<^verbatim>\<open>i\<close> by two.
\<close>

function ids_loop :: "int list \<Rightarrow> nat \<Rightarrow> int \<Rightarrow> string \<Rightarrow> error + string" where
  "ids_loop id_vec i start_id out =
     (if i < length id_vec then
        (let stop_id = id_vec ! i in
         case id_at id_vec (i + 1) of
           Inl e \<Rightarrow> Inl e
         | Inr next_id \<Rightarrow>
             (case incr stop_id of
                Inl e \<Rightarrow> Inl e
              | Inr stop_plus_1 \<Rightarrow>
                  if next_id > stop_plus_1 then
                    (let block = (if start_id \<noteq> stop_id
                                  then show_int start_id @ ''-'' @ show_int stop_id
                                  else show_int start_id);
                         sep = (if i + 1 < length id_vec then '', '' else '''')
                     in case id_at id_vec (i + 1) of
                          Inl e \<Rightarrow> Inl e
                        | Inr start_id' \<Rightarrow> ids_loop id_vec (i + 2) start_id' (out @ block @ sep))
                  else ids_loop id_vec (i + 1) start_id out))
      else Inr out)"
  by pat_completeness auto
termination
  by (relation "measure (\<lambda>(id_vec, i, start_id, out). length id_vec - i)") auto

declare ids_loop.simps [simp del]

definition dagmc_ids_for_dim :: "int list \<Rightarrow> error + string" where
  "dagmc_ids_for_dim ids =
     (let id_vec = sort ids in
      case id_at id_vec 0 of
        Inl e \<Rightarrow> Inl e
      | Inr start_id \<Rightarrow> ids_loop id_vec 0 start_id [])"

section \<open>The simulation model and the DagMC instance\<close>

text \<open>
  The records hold the members that \<^verbatim>\<open>src/dagmc.cpp\<close> reads or writes, but for
  \<^verbatim>\<open>dagmc_ptr_\<close> (the shared DagMC instance) and \<^verbatim>\<open>type_\<close> (always \<^verbatim>\<open>DAG\<close>).
  \<open>'d\<close> is the type of a C++ \<^verbatim>\<open>double\<close>: the arithmetic on it
  (\<^verbatim>\<open>*\<close>, \<^verbatim>\<open>std::sqrt\<close>, \<^verbatim>\<open>> 0.0\<close>, \<^verbatim>\<open>std::stod\<close>) is taken from the
  environment, so nothing is assumed about rounding.
\<close>

datatype bc = VacuumBC | ReflectiveBC

record 'd material =
  mat_id :: int
  mat_name :: string
  mat_temperature :: 'd

record 'd cell =
  cell_id :: int
  cell_dag_index :: nat
  cell_universe :: int
  cell_fill :: int
  cell_material :: "int list"
  cell_sqrtkT :: "'d list"

record surface =
  surf_id :: int
  surf_dag_index :: nat
  surf_bc :: "bc option"

text \<open>
  The global registries of namespace \<^verbatim>\<open>model\<close>: the collections and the maps from an id
  to the index in its collection.
\<close>

record 'd model =
  cells :: "'d cell list"
  cell_map :: "int \<rightharpoonup> nat"
  surfaces :: "surface list"
  surface_map :: "int \<rightharpoonup> nat"
  materials :: "'d material list"
  material_map :: "int \<rightharpoonup> nat"
  overlap_check_count :: "int list"

text \<open>
  A DAGUniverse: the members its constructors set. \<^verbatim>\<open>uwuw_\<close> is the material library
  of the file, seen through what the import reads of it: its keys, and for each key the
  value of \<^verbatim>\<open>metadata["mat_number"].asInt()\<close>.
\<close>

record universe =
  univ_id :: int
  univ_filename :: string
  adjust_geometry_ids :: bool
  adjust_material_ids :: bool

type_synonym uwuw = "(string \<times> int) list"

text \<open>
  What the DagMC instance and its metadata (\<^verbatim>\<open>dagmcMetaData\<close>) answer for the entities
  of the loaded file, in the order of \<^verbatim>\<open>entity_by_index\<close>: the handle, the id
  (\<^verbatim>\<open>id_by_index\<close>), the \<^verbatim>\<open>material\<close> and \<^verbatim>\<open>boundary\<close> properties, the key into the
  material library (\<^verbatim>\<open>volume_material_property_data_eh\<close>), the \<^verbatim>\<open>temp\<close> property
  (\<^verbatim>\<open>has_prop\<close>, \<^verbatim>\<open>prop_value\<close>) and the parent volumes of a surface
  (\<^verbatim>\<open>get_parent_meshsets\<close>).
\<close>

record volume =
  vol_handle :: nat
  vol_id :: int
  vol_material :: string
  vol_uwuw_material :: string
  vol_temp :: "string option"

record surface_entity =
  sf_handle :: nat
  sf_id :: int
  sf_boundary :: string
  sf_parents :: "nat list"

record dagmc =
  dag_volumes :: "volume list"
  dag_surfaces :: "surface_entity list"

text \<open>
  The environment: constants of \<^verbatim>\<open>openmc/constants.h\<close>, the settings, and the helpers
  whose code is outside \<^verbatim>\<open>src/\<close>. \<open>to_lower\<close> is \<^verbatim>\<open>to_lower\<close> of
  \<^verbatim>\<open>openmc/string_utils.h\<close>. \<open>read_uwuw_materials\<close> stands for lines 433-470, which
  consist of calls into the UWUW library, pugixml and the Material constructor: it
  yields the library and the material collection and map it leaves behind, or fails.
\<close>

record 'd env =
  MATERIAL_VOID :: int
  C_NONE :: int
  K_BOLTZMANN :: 'd
  temperature_default :: 'd
  verbosity :: int
  check_overlaps :: bool
  to_lower :: "string \<Rightarrow> string"
  stod :: "string \<Rightarrow> exn + 'd"
  dmul :: "'d \<Rightarrow> 'd \<Rightarrow> 'd"
  dsqrt :: "'d \<Rightarrow> 'd"
  dpositive :: "'d \<Rightarrow> bool"
  read_uwuw_materials ::
    "universe \<Rightarrow> 'd model \<Rightarrow> error + (uwuw \<times> 'd material list \<times> (int \<rightharpoonup> nat))"

definition uses_uwuw :: "uwuw option \<Rightarrow> bool" where
  "uses_uwuw uwuw_lib = (case uwuw_lib of None \<Rightarrow> False | Some material_library \<Rightarrow> material_library \<noteq> [])"

section \<open>Legacy material assignment (lines 132-179)\<close>

definition apostrophe :: string where
  "apostrophe = [CHR 0x27]"

definition several_materials_msg :: "string \<Rightarrow> string" where
  "several_materials_msg mat_string =
     ''More than one material found with name '' @ apostrophe @ mat_string @ apostrophe @
     ''. Please ensure materials have unique names if using this property to assign materials.''"

definition no_material_msg :: "string \<Rightarrow> int \<Rightarrow> string" where
  "no_material_msg mat_string c_id =
     ''No material '' @ apostrophe @ mat_string @ apostrophe @
     '' found for volume (cell) '' @ show_int c_id"

text \<open>
  The loop over \<^verbatim>\<open>model::materials\<close> (lines 139-155). The state is
  \<^verbatim>\<open>mat_found_by_name\<close> and \<^verbatim>\<open>c->material_\<close>; \<open>mat_string\<close> is already lowered.
\<close>

fun name_loop ::
  "'d env \<Rightarrow> string \<Rightarrow> 'd material list \<Rightarrow> bool \<times> int list \<Rightarrow> error + bool \<times> int list" where
  "name_loop env mat_string [] acc = Inr acc"
| "name_loop env mat_string (m # ms) (mat_found_by_name, c_material) =
     (if mat_string = to_lower env (mat_name m) then
        (if \<not> mat_found_by_name then name_loop env mat_string ms (True, c_material @ [mat_id m])
         else Inl (FatalError (several_materials_msg mat_string)))
      else name_loop env mat_string ms (mat_found_by_name, c_material))"

text \<open>
  The \<^verbatim>\<open>try\<close> block (lines 158-166): only \<^verbatim>\<open>std::invalid_argument\<close> is caught, so
  \<^verbatim>\<open>std::out_of_range\<close> leaves the function as an exception.
\<close>

definition assign_by_id :: "string \<Rightarrow> int \<Rightarrow> int list \<Rightarrow> error + int list" where
  "assign_by_id mat_string c_id c_material =
     (case stoi mat_string of
        Inr mat_number \<Rightarrow> Inr (c_material @ [mat_number])
      | Inl invalid_argument \<Rightarrow> Inl (FatalError (no_material_msg mat_string c_id))
      | Inl out_of_range \<Rightarrow> Inl (Uncaught out_of_range))"

text \<open>
  \<^verbatim>\<open>model::materials[model::material_map.at(m_id)]\<close>: \<^verbatim>\<open>at\<close> throws
  \<^verbatim>\<open>std::out_of_range\<close> for an id that is not a key of the map.
\<close>

definition material_at :: "'d model \<Rightarrow> int \<Rightarrow> error + 'd material" where
  "material_at st m_id =
     (case material_map st m_id of
        None \<Rightarrow> Inl (Uncaught out_of_range)
      | Some idx \<Rightarrow>
          if idx < length (materials st) then Inr (materials st ! idx)
          else Inl (Undefined OutOfBoundsRead))"

definition first_material :: "int list \<Rightarrow> error + int" where
  "first_material c_material =
     (case c_material of [] \<Rightarrow> Inl (Undefined OutOfBoundsRead) | m0 # _ \<Rightarrow> Inr m0)"

text \<open>
  Lines 168-178 build a message for \<^verbatim>\<open>write_message\<close>; what they do to the run is the
  lookup of the assigned material.
\<close>

definition verbose_lookup :: "'d env \<Rightarrow> 'd model \<Rightarrow> int list \<Rightarrow> error + unit" where
  "verbose_lookup env st c_material =
     (if verbosity env \<ge> 10 then
        (case first_material c_material of
           Inl e \<Rightarrow> Inl e
         | Inr m0 \<Rightarrow> (case material_at st m0 of Inl e \<Rightarrow> Inl e | Inr m \<Rightarrow> Inr ()))
      else Inr ())"

definition legacy_assign_material ::
  "'d env \<Rightarrow> 'd model \<Rightarrow> string \<Rightarrow> 'd cell \<Rightarrow> error + 'd cell" where
  "legacy_assign_material env st mat_string0 c =
     (let mat_string = to_lower env mat_string0 in
      case name_loop env mat_string (materials st) (False, cell_material c) of
        Inl e \<Rightarrow> Inl e
      | Inr (mat_found_by_name, material_1) \<Rightarrow>
          (case (if \<not> mat_found_by_name then assign_by_id mat_string (cell_id c) material_1
                 else Inr material_1) of
             Inl e \<Rightarrow> Inl e
           | Inr material_2 \<Rightarrow>
               (case verbose_lookup env st material_2 of
                  Inl e \<Rightarrow> Inl e
                | Inr u \<Rightarrow> Inr (c\<lparr>cell_material := material_2\<rparr>))))"

section \<open>The constructor from an XML node (lines 188-212)\<close>

text \<open>
  The node, seen through \<^verbatim>\<open>check_for_node\<close>, \<^verbatim>\<open>get_node_value\<close> and
  \<^verbatim>\<open>get_node_value_bool\<close>: a parameter that is absent is \<open>None\<close>, one that is present
  carries the value the helper returns for it.
\<close>

record xml_node =
  node_id :: "string option"
  node_filename :: "string option"
  node_auto_geom_ids :: "bool option"
  node_auto_mat_ids :: "bool option"

text \<open>
  Lines 189-209, the members as they stand when \<^verbatim>\<open>initialize()\<close> is called. The variables
  carry the names of the members; each \<open>let\<close> is one assignment of the source, in its
  order, so the fourth one assigns \<^verbatim>\<open>adjust_geometry_ids_\<close> as line 208 does.
\<close>

definition DAGUniverse_members :: "xml_node \<Rightarrow> error + universe" where
  "DAGUniverse_members node =
     (case node_id node of
        None \<Rightarrow> Inl (FatalError ''Must specify the id of the DAGMC universe'')
      | Some id_value \<Rightarrow>
          (case stoi id_value of
             Inl x \<Rightarrow> Inl (Uncaught x)
           | Inr id0 \<Rightarrow>
               (case node_filename node of
                  None \<Rightarrow> Inl (FatalError ''Must specify a file for the DAGMC universe'')
                | Some filename0 \<Rightarrow>
                    (let adjust_geometry_ids_1 = False;
                         adjust_geometry_ids_2 =
                           (case node_auto_geom_ids node of
                              Some b \<Rightarrow> b | None \<Rightarrow> adjust_geometry_ids_1);
                         adjust_material_ids_1 = False;
                         adjust_geometry_ids_3 =
                           (case node_auto_mat_ids node of
                              Some b \<Rightarrow> b | None \<Rightarrow> adjust_geometry_ids_2)
                     in Inr \<lparr>univ_id = id0, univ_filename = filename0,
                              adjust_geometry_ids = adjust_geometry_ids_3,
                              adjust_material_ids = adjust_material_ids_1\<rparr>))))"

section \<open>\<^verbatim>\<open>DAGUniverse::initialize\<close> (lines 229-431)\<close>

text \<open>Lines 233-236 and 241-244: the highest id of a collection, starting from 0.\<close>

definition highest_id :: "int list \<Rightarrow> int" where
  "highest_id ids = foldl (\<lambda>next_id x. if x > next_id then x else next_id) 0 ids"

text \<open>
  \<^verbatim>\<open>adjust_geometry_ids_ ? next_id++ : id_by_index(dim, index)\<close> (lines 293 and 387): the
  id of the new entity and the counter after it.
\<close>

definition choose_id :: "bool \<Rightarrow> int \<Rightarrow> int \<Rightarrow> error + int \<times> int" where
  "choose_id adjust next_id native_id =
     (if adjust then
        (case incr next_id of Inl e \<Rightarrow> Inl e | Inr next_id' \<Rightarrow> Inr (next_id, next_id'))
      else Inr (native_id, next_id))"

definition cell_collision_msg :: "int \<Rightarrow> int \<Rightarrow> string" where
  "cell_collision_msg c_id u_id =
     ''Cell ID '' @ show_int c_id @ '' exists in both DAGMC Universe '' @ show_int u_id @
     '' and the CSG geometry.''"

definition surface_collision_msg :: "int \<Rightarrow> int \<Rightarrow> string" where
  "surface_collision_msg s_id u_id =
     ''Surface ID '' @ show_int s_id @ '' exists in both Universe '' @ show_int u_id @
     '' and the CSG geometry.''"

text \<open>
  The \<^verbatim>\<open>else\<close> branches of lines 301-305 and 422-426: the argument of \<^verbatim>\<open>warning\<close> is
  computed first, by \<^verbatim>\<open>dagmc_ids_for_dim\<close>, then \<^verbatim>\<open>fatal_error\<close> ends the run.
\<close>

definition collision :: "int list \<Rightarrow> string \<Rightarrow> error" where
  "collision entity_ids msg =
     (case dagmc_ids_for_dim entity_ids of Inl e \<Rightarrow> e | Inr listing \<Rightarrow> FatalError msg)"

definition no_assignment_msg :: "int \<Rightarrow> string" where
  "no_assignment_msg c_id = ''Volume '' @ show_int c_id @ '' has no material assignment.''"

definition uwuw_missing_msg :: "string \<Rightarrow> string" where
  "uwuw_missing_msg mat_str =
     ''Material with value '' @ apostrophe @ mat_str @ apostrophe @
     '' not found in the UWUW material library''"

text \<open>Lines 322-340: the material of the cell, from the lowered tag \<open>mat_str\<close>.\<close>

definition assign_material ::
  "'d env \<Rightarrow> uwuw option \<Rightarrow> 'd model \<Rightarrow> volume \<Rightarrow> string \<Rightarrow> 'd cell \<Rightarrow> error + 'd cell" where
  "assign_material env uwuw_lib st vol mat_str c =
     (if mat_str = ''void'' \<or> mat_str = ''vacuum'' \<or> mat_str = ''graveyard'' then
        Inr (c\<lparr>cell_material := cell_material c @ [MATERIAL_VOID env]\<rparr>)
      else
        (case (if uses_uwuw uwuw_lib then uwuw_lib else None) of
           Some material_library \<Rightarrow>
             (case map_of material_library (vol_uwuw_material vol) of
                Some mat_number \<Rightarrow> Inr (c\<lparr>cell_material := cell_material c @ [mat_number]\<rparr>)
              | None \<Rightarrow> Inl (FatalError (uwuw_missing_msg mat_str)))
         | None \<Rightarrow> legacy_assign_material env st mat_str c))"

text \<open>Lines 342-362: nothing for a void cell, else one entry of \<^verbatim>\<open>sqrtkT_\<close>.\<close>

definition assign_temperature ::
  "'d env \<Rightarrow> 'd model \<Rightarrow> volume \<Rightarrow> 'd cell \<Rightarrow> error + 'd cell" where
  "assign_temperature env st vol c =
     (case first_material (cell_material c) of
        Inl e \<Rightarrow> Inl e
      | Inr m0 \<Rightarrow>
          if m0 = MATERIAL_VOID env then Inr c
          else
            (case material_at st m0 of
               Inl e \<Rightarrow> Inl e
             | Inr mat \<Rightarrow>
                 (case vol_temp vol of
                    Some temp_value \<Rightarrow>
                      (case stod env temp_value of
                         Inl x \<Rightarrow> Inl (Uncaught x)
                       | Inr temp \<Rightarrow>
                           Inr (c\<lparr>cell_sqrtkT := cell_sqrtkT c @
                                  [dsqrt env (dmul env (K_BOLTZMANN env) temp)]\<rparr>))
                  | None \<Rightarrow>
                      if dpositive env (mat_temperature mat) then
                        Inr (c\<lparr>cell_sqrtkT := cell_sqrtkT c @
                               [dsqrt env (dmul env (K_BOLTZMANN env) (mat_temperature mat))]\<rparr>)
                      else
                        Inr (c\<lparr>cell_sqrtkT := cell_sqrtkT c @
                               [dsqrt env (dmul env (K_BOLTZMANN env) (temperature_default env))]\<rparr>))))"

text \<open>
  One iteration of the loop over the volumes (lines 287-365). The loop carries the
  model, \<^verbatim>\<open>next_cell_id\<close> and \<^verbatim>\<open>graveyard\<close>; \<open>i\<close> is the loop variable and
  \<open>vol_ids\<close> the ids of all volumes, which the collision branch lists. A failure keeps
  the model as it stands when the process ends.
\<close>

definition init_cell ::
  "'d env \<Rightarrow> universe \<Rightarrow> uwuw option \<Rightarrow> int list \<Rightarrow> nat \<Rightarrow> volume \<Rightarrow>
   'd model \<times> int \<times> nat \<Rightarrow> error \<times> 'd model + 'd model \<times> int \<times> nat" where
  "init_cell env u uwuw_lib vol_ids i vol s =
     (case s of (st, next_cell_id, graveyard) \<Rightarrow>
     (case choose_id (adjust_geometry_ids u) next_cell_id (vol_id vol) of
        Inl e \<Rightarrow> Inl (e, st)
      | Inr (c_id, next_cell_id') \<Rightarrow>
          (let c = \<lparr>cell_id = c_id, cell_dag_index = i + 1, cell_universe = univ_id u,
                    cell_fill = C_NONE env, cell_material = [], cell_sqrtkT = []\<rparr>
           in case cell_map st c_id of
                Some in_map \<Rightarrow> Inl (collision vol_ids (cell_collision_msg c_id (univ_id u)), st)
              | None \<Rightarrow>
                  (let st1 = st\<lparr>cell_map := (cell_map st)(c_id \<mapsto> length (cells st))\<rparr>
                   in if vol_material vol = [] then Inl (FatalError (no_assignment_msg c_id), st1)
                      else
                        (let mat_str = to_lower env (vol_material vol);
                             graveyard' = (if mat_str = ''graveyard'' then vol_handle vol
                                           else graveyard)
                         in case assign_material env uwuw_lib st1 vol mat_str c of
                              Inl e \<Rightarrow> Inl (e, st1)
                            | Inr c1 \<Rightarrow>
                                (case assign_temperature env st1 vol c1 of
                                   Inl e \<Rightarrow> Inl (e, st1)
                                 | Inr c2 \<Rightarrow>
                                     Inr (st1\<lparr>cells := cells st1 @ [c2]\<rparr>,
                                          next_cell_id', graveyard')))))))"

fun cell_loop ::
  "'d env \<Rightarrow> universe \<Rightarrow> uwuw option \<Rightarrow> int list \<Rightarrow> nat \<Rightarrow> volume list \<Rightarrow>
   'd model \<times> int \<times> nat \<Rightarrow> error \<times> 'd model + 'd model \<times> int \<times> nat" where
  "cell_loop env u uwuw_lib vol_ids i [] s = Inr s"
| "cell_loop env u uwuw_lib vol_ids i (vol # vols) s =
     (case init_cell env u uwuw_lib vol_ids i vol s of
        Inl e \<Rightarrow> Inl e
      | Inr s' \<Rightarrow> cell_loop env u uwuw_lib vol_ids (i + 1) vols s')"

definition unknown_bc_msg :: "string \<Rightarrow> int \<Rightarrow> string" where
  "unknown_bc_msg bc_value s_id =
     ''Unknown boundary condition '' @ [CHR 0x22] @ bc_value @ [CHR 0x22] @
     '' specified on surface '' @ show_int s_id"

text \<open>Lines 393-404: the boundary condition of the lowered tag; \<open>None\<close> is \<^verbatim>\<open>nullptr\<close>.\<close>

definition classify_bc :: "string \<Rightarrow> int \<Rightarrow> error + bc option" where
  "classify_bc bc_value s_id =
     (if bc_value = [] \<or> bc_value = ''transmit'' \<or> bc_value = ''transmission'' then Inr None
      else if bc_value = ''vacuum'' then Inr (Some VacuumBC)
      else if bc_value = ''reflective'' \<or> bc_value = ''reflect'' \<or> bc_value = ''reflecting''
        then Inr (Some ReflectiveBC)
      else if bc_value = ''periodic''
        then Inl (FatalError ''Periodic boundary condition not supported in DAGMC.'')
      else Inl (FatalError (unknown_bc_msg bc_value s_id)))"

text \<open>Lines 406-415: a surface of the graveyard volume gets a vacuum boundary.\<close>

definition graveyard_check :: "nat \<Rightarrow> nat list \<Rightarrow> bc option \<Rightarrow> bc option" where
  "graveyard_check graveyard parent_vols bc0 =
     (if graveyard \<noteq> 0 \<and> graveyard \<in> set parent_vols then Some VacuumBC else bc0)"

text \<open>One iteration of the loop over the surfaces (lines 381-430).\<close>

definition init_surface ::
  "'d env \<Rightarrow> universe \<Rightarrow> nat \<Rightarrow> int list \<Rightarrow> nat \<Rightarrow> surface_entity \<Rightarrow>
   'd model \<times> int \<Rightarrow> error \<times> 'd model + 'd model \<times> int" where
  "init_surface env u graveyard surf_ids i sf s =
     (case s of (st, next_surf_id) \<Rightarrow>
     (case choose_id (adjust_geometry_ids u) next_surf_id (sf_id sf) of
        Inl e \<Rightarrow> Inl (e, st)
      | Inr (s_id, next_surf_id') \<Rightarrow>
          (case classify_bc (to_lower env (sf_boundary sf)) s_id of
             Inl e \<Rightarrow> Inl (e, st)
           | Inr bc0 \<Rightarrow>
               (let sfc = \<lparr>surf_id = s_id, surf_dag_index = i + 1,
                           surf_bc = graveyard_check graveyard (sf_parents sf) bc0\<rparr>
                in case surface_map st s_id of
                     Some in_map \<Rightarrow>
                       Inl (collision surf_ids (surface_collision_msg s_id (univ_id u)), st)
                   | None \<Rightarrow>
                       Inr (st\<lparr>surface_map := (surface_map st)(s_id \<mapsto> length (surfaces st)),
                               surfaces := surfaces st @ [sfc]\<rparr>, next_surf_id')))))"

fun surface_loop ::
  "'d env \<Rightarrow> universe \<Rightarrow> nat \<Rightarrow> int list \<Rightarrow> nat \<Rightarrow> surface_entity list \<Rightarrow>
   'd model \<times> int \<Rightarrow> error \<times> 'd model + 'd model \<times> int" where
  "surface_loop env u graveyard surf_ids i [] s = Inr s"
| "surface_loop env u graveyard surf_ids i (sf # sfs) s =
     (case init_surface env u graveyard surf_ids i sf s of
        Inl e \<Rightarrow> Inl e
      | Inr s' \<Rightarrow> surface_loop env u graveyard surf_ids (i + 1) sfs s')"

text \<open>\<^verbatim>\<open>overlap_check_count.resize(n, 0)\<close> (line 369).\<close>

definition resize :: "nat \<Rightarrow> int list \<Rightarrow> int list" where
  "resize n xs = take n xs @ replicate (n - length xs) 0"

text \<open>
  The whole of \<^verbatim>\<open>initialize\<close>. \<open>mesh\<close> is what \<^verbatim>\<open>load_file(filename_)\<close> leaves in the
  DagMC instance (\<^verbatim>\<open>MB_CHK_ERR_CONT\<close> reports an error code and goes on). The result
  holds \<^verbatim>\<open>cell_idx_offset_\<close>, \<^verbatim>\<open>surf_idx_offset_\<close> and the model. The messages of
  \<^verbatim>\<open>write_message\<close> and \<^verbatim>\<open>warning\<close> go to the terminal and are not part of the model.
\<close>

definition initialize ::
  "'d env \<Rightarrow> universe \<Rightarrow> dagmc \<Rightarrow> 'd model \<Rightarrow> error \<times> 'd model + (nat \<times> nat) \<times> 'd model" where
  "initialize env u mesh st =
     (case incr (highest_id (map cell_id (cells st))) of
        Inl e \<Rightarrow> Inl (e, st)
      | Inr next_cell_id \<Rightarrow>
     (case incr (highest_id (map surf_id (surfaces st))) of
        Inl e \<Rightarrow> Inl (e, st)
      | Inr next_surf_id \<Rightarrow>
     (case read_uwuw_materials env u st of
        Inl e \<Rightarrow> Inl (e, st)
      | Inr (material_library, materials', material_map') \<Rightarrow>
     (case cell_loop env u (Some material_library) (map vol_id (dag_volumes mesh)) 0
             (dag_volumes mesh)
             (st\<lparr>materials := materials', material_map := material_map'\<rparr>, next_cell_id, 0) of
        Inl e \<Rightarrow> Inl e
      | Inr (st2, next_cell_id', graveyard) \<Rightarrow>
     (case surface_loop env u graveyard (map sf_id (dag_surfaces mesh)) 0 (dag_surfaces mesh)
             (if check_overlaps env
              then st2\<lparr>overlap_check_count := resize (length (cells st2)) (overlap_check_count st2)\<rparr>
              else st2, next_surf_id) of
        Inl e \<Rightarrow> Inl e
      | Inr (st3, next_surf_id') \<Rightarrow>
          Inr ((length (cells st), length (surfaces st)), st3))))))"

text \<open>The constructor: the members, then \<^verbatim>\<open>initialize()\<close>.\<close>

definition DAGUniverse_xml ::
  "'d env \<Rightarrow> dagmc \<Rightarrow> xml_node \<Rightarrow> 'd model \<Rightarrow>
   error \<times> 'd model + universe \<times> (nat \<times> nat) \<times> 'd model" where
  "DAGUniverse_xml env mesh node st =
     (case DAGUniverse_members node of
        Inl e \<Rightarrow> Inl (e, st)
      | Inr u \<Rightarrow>
          (case initialize env u mesh st of
             Inl e \<Rightarrow> Inl e
           | Inr (offsets, st') \<Rightarrow> Inr (u, offsets, st')))"

section \<open>Notions used to state the properties\<close>

text \<open>
  Lines 307-362 of one iteration of the loop over the volumes, as a function of the id
  the cell was given: the material and the temperature are assigned to the new cell,
  which is then appended to \<^verbatim>\<open>model::cells\<close>.
\<close>

definition built_cell ::
  "'d env \<Rightarrow> universe \<Rightarrow> uwuw option \<Rightarrow> 'd model \<Rightarrow> nat \<Rightarrow> volume \<Rightarrow> int \<Rightarrow> error + 'd cell" where
  "built_cell env u uwuw_lib st i vol c_id =
     (case assign_material env uwuw_lib st vol (to_lower env (vol_material vol))
             \<lparr>cell_id = c_id, cell_dag_index = i + 1, cell_universe = univ_id u,
              cell_fill = C_NONE env, cell_material = [], cell_sqrtkT = []\<rparr> of
        Inl e \<Rightarrow> Inl e
      | Inr c1 \<Rightarrow> assign_temperature env st vol c1)"

text \<open>
  The variable \<^verbatim>\<open>graveyard\<close> after the loop over the volumes \<open>vols\<close>, started
  from \<open>g\<close>: the handle of the last volume whose lowered tag is \<^verbatim>\<open>graveyard\<close>.
\<close>

definition tracked_graveyard :: "'d env \<Rightarrow> volume list \<Rightarrow> nat \<Rightarrow> nat" where
  "tracked_graveyard env vols g =
     foldl (\<lambda>g vol. if to_lower env (vol_material vol) = ''graveyard'' then vol_handle vol else g)
       g vols"

text \<open>
  The temperature of a volume in the words of the specification: the \<^verbatim>\<open>temp\<close> property
  of the mesh entity if it has one, otherwise the temperature of the material if it is
  positive, otherwise the default of the simulation.
\<close>

definition chosen_temperature :: "'d env \<Rightarrow> volume \<Rightarrow> 'd material \<Rightarrow> exn + 'd" where
  "chosen_temperature env vol mat =
     (case vol_temp vol of
        Some temp_value \<Rightarrow> stod env temp_value
      | None \<Rightarrow> Inr (if dpositive env (mat_temperature mat) then mat_temperature mat
                       else temperature_default env))"

text \<open>
  A gap between two neighbours of the sorted vector, as the loop of the listing tests it
  (\<^verbatim>\<open>id_vec[i + 1] > stop_id + 1\<close>), and the number of gaps at the end of the vector: the
  length of the longest run of neighbouring pairs with a gap that ends with the last
  pair. It is 0 for a vector of at most one id and whenever the two largest ids are not
  separated by a gap.
\<close>

definition gap :: "int \<times> int \<Rightarrow> bool" where
  "gap p = (snd p > fst p + 1)"

definition trailing_gaps :: "int list \<Rightarrow> nat" where
  "trailing_gaps id_vec = length (takeWhile gap (rev (zip id_vec (tl id_vec))))"

text \<open>
  What lines 168-178 do to a call of \<^verbatim>\<open>legacy_assign_material\<close> that has assigned a
  material, stated on its own: below a verbosity of 10 nothing, and the cell is
  returned; from 10 on, the first material of the cell is looked up in
  \<^verbatim>\<open>model::material_map\<close>, and an id that is no key of the map ends the call with
  \<^verbatim>\<open>std::out_of_range\<close>.
\<close>

definition message_lookup :: "'d env \<Rightarrow> 'd model \<Rightarrow> 'd cell \<Rightarrow> error + 'd cell" where
  "message_lookup env st c =
     (if verbosity env < 10 then Inr c
      else
        (case material_map st (hd (cell_material c)) of
           None \<Rightarrow> Inl (Uncaught out_of_range)
         | Some idx \<Rightarrow>
             if idx < length (materials st) then Inr c else Inl (Undefined OutOfBoundsRead)))"

section \<open>A concrete environment and a concrete import\<close>

text \<open>
  Modelled from the spec: \<^verbatim>\<open>to_lower\<close> of \<^verbatim>\<open>openmc/string_utils.h\<close> is missing from
  the sources; the spec calls the comparison of tags case-insensitive. The letters A to
  Z are replaced by a to z, every other character is kept.
\<close>

definition lower_char :: "char \<Rightarrow> char" where
  "lower_char c =
     (case map_of (zip ''ABCDEFGHIJKLMNOPQRSTUVWXYZ'' ''abcdefghijklmnopqrstuvwxyz'') c of
        Some l \<Rightarrow> l
      | None \<Rightarrow> c)"

definition ascii_to_lower :: "string \<Rightarrow> string" where
  "ascii_to_lower s = map lower_char s"

text \<open>
  A stand-in for \<^verbatim>\<open>std::stod\<close> in the examples: it reads a decimal integer, which
  \<^verbatim>\<open>std::stod\<close> reads to the same value.
\<close>

definition example_stod :: "string \<Rightarrow> exn + real" where
  "example_stod s = (case stoi s of Inl x \<Rightarrow> Inl x | Inr v \<Rightarrow> Inr (real_of_int v))"

text \<open>
  Modelled from the spec: the values of \<^verbatim>\<open>MATERIAL_VOID\<close>, \<^verbatim>\<open>C_NONE\<close> and
  \<^verbatim>\<open>K_BOLTZMANN\<close> (\<^verbatim>\<open>openmc/constants.h\<close>) are missing from the sources; the spec
  calls the first a sentinel. The examples take -1 for the two sentinels and the
  Boltzmann constant in eV/K, and double arithmetic is read as arithmetic on the reals.
  The file of the examples has no material library.
\<close>

definition example_env :: "real env" where
  "example_env =
     \<lparr>MATERIAL_VOID = - 1, C_NONE = - 1, K_BOLTZMANN = 8617333262 / 100000000000000,
      temperature_default = 293, verbosity = 7, check_overlaps = True,
      to_lower = ascii_to_lower, stod = example_stod, dmul = (*), dsqrt = sqrt,
      dpositive = (\<lambda>x. x > 0),
      read_uwuw_materials = (\<lambda>u st. Inr ([], materials st, material_map st))\<rparr>"

text \<open>
  A model that already holds one CSG cell (id 42), one surface (id 4) and two materials:
  Steel (id 7, 600 K) and Water (id 8, no temperature of its own).
\<close>

definition example_model :: "real model" where
  "example_model =
     \<lparr>cells = [\<lparr>cell_id = 42, cell_dag_index = 0, cell_universe = 0, cell_fill = - 1,
                 cell_material = [7], cell_sqrtkT = []\<rparr>],
      cell_map = [42 \<mapsto> 0],
      surfaces = [\<lparr>surf_id = 4, surf_dag_index = 0, surf_bc = None\<rparr>],
      surface_map = [4 \<mapsto> 0],
      materials = [\<lparr>mat_id = 7, mat_name = ''Steel'', mat_temperature = 600\<rparr>,
                   \<lparr>mat_id = 8, mat_name = ''Water'', mat_temperature = 0\<rparr>],
      material_map = [7 \<mapsto> 0, 8 \<mapsto> 1],
      overlap_check_count = [0]\<rparr>"

text \<open>
  A file with four volumes and two surfaces: a steel volume, a volume whose material is
  given by id with a temperature of its own, a water volume, and the graveyard, one of
  whose surfaces is tagged reflective.
\<close>

definition example_mesh :: dagmc where
  "example_mesh =
     \<lparr>dag_volumes =
        [\<lparr>vol_handle = 11, vol_id = 5, vol_material = ''Steel'', vol_uwuw_material = [],
          vol_temp = None\<rparr>,
         \<lparr>vol_handle = 12, vol_id = 6, vol_material = ''8'', vol_uwuw_material = [],
          vol_temp = Some ''300''\<rparr>,
         \<lparr>vol_handle = 13, vol_id = 8, vol_material = ''WATER'', vol_uwuw_material = [],
          vol_temp = None\<rparr>,
         \<lparr>vol_handle = 14, vol_id = 9, vol_material = ''Graveyard'', vol_uwuw_material = [],
          vol_temp = None\<rparr>],
      dag_surfaces =
        [\<lparr>sf_handle = 21, sf_id = 7, sf_boundary = ''Reflective'', sf_parents = [13, 14]\<rparr>,
         \<lparr>sf_handle = 22, sf_id = 8, sf_boundary = [], sf_parents = [11, 12]\<rparr>]\<rparr>"

definition example_universe :: "bool \<Rightarrow> universe" where
  "example_universe adjust =
     \<lparr>univ_id = 2, univ_filename = ''dagmc.h5m'', adjust_geometry_ids = adjust,
      adjust_material_ids = False\<rparr>"

text \<open>The same materials with no cell and no surface yet.\<close>

definition example_materials_only :: "real model" where
  "example_materials_only =
     \<lparr>cells = [], cell_map = Map.empty, surfaces = [], surface_map = Map.empty,
      materials = [\<lparr>mat_id = 7, mat_name = ''Steel'', mat_temperature = 600\<rparr>,
                   \<lparr>mat_id = 8, mat_name = ''Water'', mat_temperature = 0\<rparr>],
      material_map = [7 \<mapsto> 0, 8 \<mapsto> 1],
      overlap_check_count = []\<rparr>"

text \<open>
  Two files with one volume and no surface: one whose volume carries the material tag
  \<^verbatim>\<open>-1\<close>, and one whose volume has the id 42 of the CSG cell.
\<close>

definition example_mesh_minus_1 :: dagmc where
  "example_mesh_minus_1 =
     \<lparr>dag_volumes =
        [\<lparr>vol_handle = 11, vol_id = 5, vol_material = ''-1'', vol_uwuw_material = [],
          vol_temp = None\<rparr>],
      dag_surfaces = []\<rparr>"

definition example_mesh_42 :: dagmc where
  "example_mesh_42 =
     \<lparr>dag_volumes =
        [\<lparr>vol_handle = 11, vol_id = 42, vol_material = ''Steel'', vol_uwuw_material = [],
          vol_temp = None\<rparr>],
      dag_surfaces = []\<rparr>"

text \<open>
  A file with two volumes, the first of which has the id 42 of the CSG cell, and the
  file of the end-to-end example of the specification: one void volume with the id 5
  and one surface with the id 7 and an empty \<^verbatim>\<open>boundary\<close> tag.
\<close>

definition example_mesh_42_44 :: dagmc where
  "example_mesh_42_44 =
     \<lparr>dag_volumes =
        [\<lparr>vol_handle = 11, vol_id = 42, vol_material = ''Steel'', vol_uwuw_material = [],
          vol_temp = None\<rparr>,
         \<lparr>vol_handle = 12, vol_id = 44, vol_material = ''Steel'', vol_uwuw_material = [],
          vol_temp = None\<rparr>],
      dag_surfaces = []\<rparr>"

definition example_mesh_void :: dagmc where
  "example_mesh_void =
     \<lparr>dag_volumes =
        [\<lparr>vol_handle = 11, vol_id = 5, vol_material = ''void'', vol_uwuw_material = [],
          vol_temp = None\<rparr>],
      dag_surfaces =
        [\<lparr>sf_handle = 21, sf_id = 7, sf_boundary = [], sf_parents = [11]\<rparr>]\<rparr>"

text \<open>A cell as line 291-296 leave it, before its material is assigned.\<close>

definition example_cell :: "real cell" where
  "example_cell =
     \<lparr>cell_id = 5, cell_dag_index = 1, cell_universe = 2, cell_fill = - 1,
      cell_material = [], cell_sqrtkT = []\<rparr>"

section \<open>The members set by the XML constructor\<close>

lemma DAGUniverse_members_flags:
  assumes "DAGUniverse_members node = Inr u"
  shows "adjust_material_ids u = False"
    and "adjust_geometry_ids u =
           (case node_auto_mat_ids node of
              Some b \<Rightarrow> b
            | None \<Rightarrow> (case node_auto_geom_ids node of Some b \<Rightarrow> b | None \<Rightarrow> False))"
  using assms
  by (auto simp: DAGUniverse_members_def Let_def split: option.splits sum.splits)

text \<open>
  Claim C1: \<^verbatim>\<open>adjust_material_ids_\<close> is false unless the node sets \<^verbatim>\<open>auto_mat_ids\<close>, in
  which case it equals the supplied value, and setting \<^verbatim>\<open>auto_mat_ids\<close> does not
  change \<^verbatim>\<open>adjust_geometry_ids_\<close>. The code does neither: line 208 assigns the value of
  \<^verbatim>\<open>auto_mat_ids\<close> to \<^verbatim>\<open>adjust_geometry_ids_\<close>. For a node with \<^verbatim>\<open>auto_mat_ids\<close>
  true and no \<^verbatim>\<open>auto_geom_ids\<close>, the material flag stays false and the geometry
  flag becomes true.
\<close>

theorem C1_auto_mat_ids_sets_the_geometry_flag:
  "DAGUniverse_members
     \<lparr>node_id = Some ''1'', node_filename = Some ''dagmc.h5m'',
      node_auto_geom_ids = None, node_auto_mat_ids = Some True\<rparr>
   = Inr \<lparr>univ_id = 1, univ_filename = ''dagmc.h5m'',
          adjust_geometry_ids = True, adjust_material_ids = False\<rparr>"
  by (simp add: DAGUniverse_members_def stoi_def leading_digits_def strip_sign_def isspace_def
      isdigit_def digits_value_def INT_MAX_def INT_MIN_def)

section \<open>The listing of ids\<close>

text \<open>
  Claim C2: the listing of a non-empty set of positive ids, read back, gives the set; a
  singleton is printed without a hyphen and a run of consecutive ids as
  \<^verbatim>\<open>start-end\<close>. The code does not do this. For the ids 1, 3, 5, 7 it returns
  \<^verbatim>\<open>1, 3-5, \<close>: 7 is missing and 3-5 is not a run. For the singleton 7 and for
  the run 1, 2 it reads \<^verbatim>\<open>id_vec\<close> past its end before anything is printed.
\<close>

theorem C2_listing_is_not_the_id_set:
  "dagmc_ids_for_dim [1, 3, 5, 7] = Inr ''1, 3-5, '' \<and>
   dagmc_ids_for_dim [7] = Inl (Undefined OutOfBoundsRead) \<and>
   dagmc_ids_for_dim [1, 2] = Inl (Undefined OutOfBoundsRead)"
  by (simp add: dagmc_ids_for_dim_def id_at_def ids_loop.simps incr_def INT_MAX_def
      show_int_def show_nat.simps digit_char_def)

text \<open>
  The number of gaps at the end of a vector, by its first two entries.
\<close>

lemma trailing_gaps_single: "trailing_gaps [x] = 0"
  by (simp add: trailing_gaps_def)

lemma trailing_gaps_le: "trailing_gaps (b # rest) \<le> length rest"
proof -
  have "length (takeWhile gap (rev (zip (b # rest) rest))) \<le> length (rev (zip (b # rest) rest))"
    by (rule length_takeWhile_le)
  then show ?thesis by (simp add: trailing_gaps_def)
qed

lemma length_takeWhile_snoc:
  "length (takeWhile P (ps @ [p])) =
     (if length (takeWhile P ps) = length ps \<and> P p then Suc (length ps)
      else length (takeWhile P ps))"
proof (cases "\<forall>x\<in>set ps. P x")
  case True
  then have tw: "takeWhile P ps = ps" by (simp add: takeWhile_eq_all_conv)
  have "takeWhile P (ps @ [p]) = ps @ takeWhile P [p]"
    using True by (simp add: takeWhile_append2)
  then show ?thesis by (simp add: tw)
next
  case False
  then have "takeWhile P (ps @ [p]) = takeWhile P ps"
    by (auto simp: takeWhile_append1)
  moreover from False have "takeWhile P ps \<noteq> ps" by (simp add: takeWhile_eq_all_conv)
  then have "length (takeWhile P ps) \<noteq> length ps"
    by (metis takeWhile_eq_take take_all_iff order_refl)
  ultimately show ?thesis by simp
qed

lemma trailing_gaps_Cons:
  "trailing_gaps (a # b # rest) =
     (if trailing_gaps (b # rest) = length rest \<and> b > a + 1 then Suc (length rest)
      else trailing_gaps (b # rest))"
  by (simp add: trailing_gaps_def length_takeWhile_snoc gap_def)

lemma trailing_gaps_parity:
  assumes "b > a + 1"
  shows "even (trailing_gaps (a # b # c # rest)) = even (trailing_gaps (c # rest))"
proof (cases "trailing_gaps (c # rest) = length rest \<and> c > b + 1")
  case True
  then have "trailing_gaps (b # c # rest) = Suc (length rest)"
    by (simp add: trailing_gaps_Cons)
  with assms have "trailing_gaps (a # b # c # rest) = Suc (Suc (length rest))"
    by (simp add: trailing_gaps_Cons[of a b])
  with True show ?thesis by simp
next
  case False
  then have 1: "trailing_gaps (b # c # rest) = trailing_gaps (c # rest)"
    by (simp add: trailing_gaps_Cons)
  with trailing_gaps_le[of c rest] have "trailing_gaps (b # c # rest) \<noteq> length (c # rest)"
    by simp
  then have "trailing_gaps (a # b # c # rest) = trailing_gaps (b # c # rest)"
    by (simp add: trailing_gaps_Cons[of a b])
  with 1 show ?thesis by simp
qed

text \<open>
  From an index inside the vector the loop either reads the entry after the last one or
  returns a listing, and which of the two is decided by the parity of the number of
  gaps at the end of the rest of the vector: a step without a gap leaves that number as
  it is, a step over a gap advances the index by two and keeps its parity, and at the
  last index the number is 0.
\<close>

lemma ids_loop_reads_past_end:
  assumes small: "\<forall>x\<in>set xs. x < INT_MAX"
  shows "i < length xs \<Longrightarrow>
         (if even (trailing_gaps (drop i xs))
          then ids_loop xs i s out = Inl (Undefined OutOfBoundsRead)
          else \<exists>listing. ids_loop xs i s out = Inr listing)"
proof (induction "length xs - i" arbitrary: i s out rule: less_induct)
  case less
  show ?case
  proof (cases "i + 1 < length xs")
    case False
    with less.prems have d: "drop i xs = [xs ! i]"
      by (metis Cons_nth_drop_Suc Suc_eq_plus1 drop_all not_less)
    from False less.prems show ?thesis
      by (subst ids_loop.simps) (simp add: id_at_def d trailing_gaps_single)
  next
    case True
    from less.prems True have d: "drop i xs = xs ! i # xs ! (i + 1) # drop (i + 2) xs"
      by (metis Cons_nth_drop_Suc Suc_eq_plus1 add_2_eq_Suc')
    from small less.prems have "xs ! i < INT_MAX" by simp
    then have inc: "incr (xs ! i) = Inr (xs ! i + 1)" by (simp add: incr_def)
    show ?thesis
    proof (cases "xs ! (i + 1) > xs ! i + 1")
      case False
      have d1: "drop (i + 1) xs = xs ! (i + 1) # drop (i + 2) xs"
        using True by (metis Cons_nth_drop_Suc Suc_eq_plus1 add_2_eq_Suc')
      have tg: "trailing_gaps (drop i xs) = trailing_gaps (drop (i + 1) xs)"
        using False by (simp only: d d1 trailing_gaps_Cons) simp
      have eq: "ids_loop xs i s out = ids_loop xs (i + 1) s out"
        using True less.prems inc False by (subst ids_loop.simps) (simp add: id_at_def)
      have "length xs - (i + 1) < length xs - i" using less.prems by arith
      note ih = less.hyps[OF this True, of s out]
      show ?thesis unfolding tg eq by (rule ih)
    next
      case jump: True
      define s' where "s' = xs ! (i + 1)"
      define out' where
        "out' = out @ (if s \<noteq> xs ! i then show_int s @ ''-'' @ show_int (xs ! i) else show_int s) @
                (if i + 1 < length xs then '', '' else [])"
      have eq: "ids_loop xs i s out = ids_loop xs (i + 2) s' out'"
        using True less.prems inc jump unfolding s'_def out'_def
        by (subst ids_loop.simps) (simp add: id_at_def Let_def)
      show ?thesis
      proof (cases "i + 2 < length xs")
        case False
        with True have "drop (i + 2) xs = []" by simp
        with jump have "trailing_gaps (drop i xs) = 1"
          by (simp add: d trailing_gaps_Cons trailing_gaps_single)
        moreover from False have "ids_loop xs (i + 2) s' out' = Inr out'"
          by (subst ids_loop.simps) simp
        ultimately show ?thesis by (simp add: eq)
      next
        case lt: True
        then have d2: "drop (i + 2) xs = xs ! (i + 2) # drop (i + 3) xs"
          by (metis Cons_nth_drop_Suc Suc_eq_plus1 add_Suc_right numeral_3_eq_3 numeral_2_eq_2 add_2_eq_Suc' eval_nat_numeral(3))
        have par: "even (trailing_gaps (drop i xs)) = even (trailing_gaps (drop (i + 2) xs))"
          unfolding d unfolding d2 using jump by (rule trailing_gaps_parity)
        have "length xs - (i + 2) < length xs - i" using less.prems by arith
        note ih = less.hyps[OF this lt, of s' out']
        show ?thesis unfolding par eq by (rule ih)
      qed
    qed
  qed
qed

text \<open>
  Claim C9, as the code has it. Let all ids be below \<open>INT_MAX\<close>, so that
  \<^verbatim>\<open>stop_id + 1\<close> is defined. The listing reads out of bounds exactly when there is no
  id (then \<^verbatim>\<open>id_vec[0]\<close> is read) or the number of gaps at the end of the sorted vector
  is even (then the loop reaches \<^verbatim>\<open>i = n - 1\<close> and reads \<^verbatim>\<open>id_vec[n]\<close>); this covers
  every singleton and every input whose two largest ids are not separated by a gap. In
  every other case the printing branch is taken at \<^verbatim>\<open>i = n - 2\<close>, the index moves to
  \<^verbatim>\<open>n\<close>, and the listing is returned without such a read.
\<close>

theorem C9_read_past_the_end:
  assumes "\<forall>x\<in>set ids. x < INT_MAX"
  shows "(dagmc_ids_for_dim ids = Inl (Undefined OutOfBoundsRead)) =
           (ids = [] \<or> even (trailing_gaps (sort ids))) \<and>
         (dagmc_ids_for_dim ids = Inl (Undefined OutOfBoundsRead) \<or>
          (\<exists>listing. dagmc_ids_for_dim ids = Inr listing))"
proof (cases "ids = []")
  case True
  then show ?thesis by (simp add: dagmc_ids_for_dim_def id_at_def)
next
  case False
  let ?xs = "sort ids"
  from False have pos: "0 < length ?xs" by simp
  have small: "\<forall>x\<in>set ?xs. x < INT_MAX" using assms by simp
  have eq: "dagmc_ids_for_dim ids = ids_loop ?xs 0 (?xs ! 0) []"
    using pos by (simp add: dagmc_ids_for_dim_def id_at_def Let_def del: length_sort)
  note loop = ids_loop_reads_past_end[OF small pos, of "?xs ! 0" "[]"]
  show ?thesis
  proof (cases "even (trailing_gaps ?xs)")
    case True
    with loop have "dagmc_ids_for_dim ids = Inl (Undefined OutOfBoundsRead)" by (simp add: eq)
    with True show ?thesis by simp
  next
    case odd: False
    with loop obtain listing where "dagmc_ids_for_dim ids = Inr listing" by (auto simp: eq)
    with odd False show ?thesis by simp
  qed
qed

theorem C9_read_past_the_end_witness:
  "dagmc_ids_for_dim [5, 4] = Inl (Undefined OutOfBoundsRead) \<and>
   dagmc_ids_for_dim [1, 3, 5] = Inl (Undefined OutOfBoundsRead) \<and>
   dagmc_ids_for_dim [1, 2, 4, 6] = Inl (Undefined OutOfBoundsRead) \<and>
   (\<exists>listing. dagmc_ids_for_dim [1, 2, 4] = Inr listing)"
  using C9_read_past_the_end[of "[5, 4]"] C9_read_past_the_end[of "[1, 3, 5]"]
    C9_read_past_the_end[of "[1, 2, 4, 6]"] C9_read_past_the_end[of "[1, 2, 4]"]
  by (auto simp: INT_MAX_def trailing_gaps_def gap_def)

text \<open>
  The read past the end is not reached for every non-empty input: for the ids 1 and 3
  the printing branch moves \<^verbatim>\<open>i\<close> from 0 to 2, the loop ends, and the listing is
  \<^verbatim>\<open>1, \<close> whatever lies behind the vector.
\<close>

theorem C9_no_read_past_the_end_of_1_3:
  "dagmc_ids_for_dim [1, 3] = Inr ''1, ''"
  by (simp add: dagmc_ids_for_dim_def id_at_def ids_loop.simps incr_def INT_MAX_def
      show_int_def show_nat.simps digit_char_def)

section \<open>Legacy material assignment\<close>

text \<open>
  The loop over the materials, by the materials whose lowered name is the lowered tag:
  none leaves the state as it is, one appends its id (unless a material was found
  before), two or more end in the fatal error.
\<close>

lemma name_loop_filter:
  "name_loop env s ms (found, acc) =
     (case filter (\<lambda>m. to_lower env (mat_name m) = s) ms of
        [] \<Rightarrow> Inr (found, acc)
      | [m] \<Rightarrow> if found then Inl (FatalError (several_materials_msg s))
               else Inr (True, acc @ [mat_id m])
      | m # m' # rest \<Rightarrow> Inl (FatalError (several_materials_msg s)))"
  by (induction ms arbitrary: found acc) (auto split: list.splits)

lemma verbose_lookup_message:
  assumes "cell_material c' = ms @ [x]"
  shows "(case verbose_lookup env st (ms @ [x]) of Inl e \<Rightarrow> Inl e | Inr u \<Rightarrow> Inr c') =
         message_lookup env st c'"
  using assms
  by (cases ms)
     (simp_all add: verbose_lookup_def message_lookup_def first_material_def material_at_def
        split: option.splits)

lemma verbose_lookup_not_fatal: "verbose_lookup env st ms \<noteq> Inl (FatalError msg)"
  by (simp add: verbose_lookup_def first_material_def material_at_def
      split: list.splits option.splits sum.splits)

lemma stoi_invalid: "stoi s = Inl invalid_argument \<longleftrightarrow> leading_digits s = []"
  by (simp add: stoi_def Let_def)

lemma legacy_Inr:
  assumes "legacy_assign_material env st tag c = Inr c'"
  shows "\<exists>x. c' = c\<lparr>cell_material := cell_material c @ [x]\<rparr>"
  using assms
  by (auto simp: legacy_assign_material_def name_loop_filter assign_by_id_def Let_def
      split: list.splits sum.splits exn.splits if_splits)

text \<open>
  Claim C5, as the code has it, for every verbosity. The function is decided by the
  materials whose lowered name equals the lowered tag: exactly one gives its id; more
  than one the fatal error; none hands the lowered tag to \<^verbatim>\<open>std::stoi\<close>, whose value is
  taken as the id, and a tag without a leading integer ends in the fatal error that
  names the tag and the cell. (A leading integer outside \<^verbatim>\<open>int\<close> leaves the function
  as \<^verbatim>\<open>std::out_of_range\<close>.) Once an id is assigned, the materials are not consulted
  below a verbosity of 10; from 10 on the first material of the cell, which is the
  assigned id for a cell that had none, is looked up in \<^verbatim>\<open>model::material_map\<close>, and
  the call ends with \<^verbatim>\<open>std::out_of_range\<close> if it is not registered.
\<close>

theorem C5_legacy_assignment:
  "legacy_assign_material env st tag c =
     (case filter (\<lambda>m. to_lower env (mat_name m) = to_lower env tag) (materials st) of
        [] \<Rightarrow>
          (case stoi (to_lower env tag) of
             Inr v \<Rightarrow> message_lookup env st (c\<lparr>cell_material := cell_material c @ [v]\<rparr>)
           | Inl invalid_argument \<Rightarrow>
               Inl (FatalError (no_material_msg (to_lower env tag) (cell_id c)))
           | Inl out_of_range \<Rightarrow> Inl (Uncaught out_of_range))
      | [m] \<Rightarrow> message_lookup env st (c\<lparr>cell_material := cell_material c @ [mat_id m]\<rparr>)
      | m # m' # rest \<Rightarrow> Inl (FatalError (several_materials_msg (to_lower env tag))))"
proof -
  have look: "(case verbose_lookup env st (cell_material c @ [x]) of
                 Inl e \<Rightarrow> Inl e
               | Inr u \<Rightarrow> Inr (c\<lparr>cell_material := cell_material c @ [x]\<rparr>)) =
              message_lookup env st (c\<lparr>cell_material := cell_material c @ [x]\<rparr>)" for x
    by (rule verbose_lookup_message) simp
  show ?thesis
    by (simp add: legacy_assign_material_def name_loop_filter assign_by_id_def look
        split: list.splits sum.splits exn.splits)
qed

theorem C5_legacy_assignment_witness:
  "legacy_assign_material example_env example_model ''STEEL'' example_cell =
     Inr (example_cell\<lparr>cell_material := [7]\<rparr>) \<and>
   legacy_assign_material example_env example_model ''9'' example_cell =
     Inr (example_cell\<lparr>cell_material := [9]\<rparr>) \<and>
   legacy_assign_material (example_env\<lparr>verbosity := 11\<rparr>) example_model ''8'' example_cell =
     Inr (example_cell\<lparr>cell_material := [8]\<rparr>) \<and>
   legacy_assign_material (example_env\<lparr>verbosity := 11\<rparr>) example_model ''9'' example_cell =
     Inl (Uncaught out_of_range)"
  using C5_legacy_assignment[of example_env example_model "''STEEL''" example_cell]
    C5_legacy_assignment[of example_env example_model "''9''" example_cell]
    C5_legacy_assignment[of "example_env\<lparr>verbosity := 11\<rparr>" example_model "''8''" example_cell]
    C5_legacy_assignment[of "example_env\<lparr>verbosity := 11\<rparr>" example_model "''9''" example_cell]
  by (simp add: message_lookup_def example_env_def example_model_def example_cell_def
      ascii_to_lower_def lower_char_def stoi_def leading_digits_def strip_sign_def isspace_def
      isdigit_def digits_value_def INT_MAX_def INT_MIN_def)

text \<open>
  At a verbosity of 10 the id read from the tag is looked up in
  \<^verbatim>\<open>model::material_map\<close> for the message of lines 168-178: the tag \<^verbatim>\<open>9\<close>, which is
  no id of a material, ends the call with \<^verbatim>\<open>std::out_of_range\<close> instead of giving the
  cell the material 9.
\<close>

theorem C5_existence_is_checked_at_verbosity_10:
  "legacy_assign_material (example_env\<lparr>verbosity := 10\<rparr>) example_model ''9'' example_cell =
     Inl (Uncaught out_of_range)"
  by (simp add: legacy_assign_material_def name_loop.simps assign_by_id_def verbose_lookup_def
      first_material_def material_at_def example_env_def example_model_def example_cell_def
      ascii_to_lower_def lower_char_def stoi_def leading_digits_def strip_sign_def isspace_def
      isdigit_def digits_value_def INT_MAX_def INT_MIN_def)

text \<open>
  Claim C10: when no material has the name of the tag, the tag is read by
  \<^verbatim>\<open>std::stoi\<close>, which takes the longest leading integer and ignores what follows it:
  if that gives \<open>v\<close>, the id \<open>v\<close> is appended to the materials of the cell (and the
  call returns the cell, unless the look-up for the message of a verbosity of 10 or
  more fails), so \<^verbatim>\<open>12abc\<close> gives the id 12; and the call ends in a fatal error exactly
  when the tag has no leading integer, the error then being the one that names the tag
  and the cell.
\<close>

theorem C10_leading_integer_is_accepted:
  assumes "\<forall>m\<in>set (materials st). to_lower env (mat_name m) \<noteq> to_lower env tag"
  shows "(\<forall>v. stoi (to_lower env tag) = Inr v \<longrightarrow>
            legacy_assign_material env st tag c =
              (case verbose_lookup env st (cell_material c @ [v]) of
                 Inl e \<Rightarrow> Inl e
               | Inr u \<Rightarrow> Inr (c\<lparr>cell_material := cell_material c @ [v]\<rparr>))) \<and>
         ((\<exists>msg. legacy_assign_material env st tag c = Inl (FatalError msg)) \<longleftrightarrow>
            leading_digits (to_lower env tag) = []) \<and>
         (leading_digits (to_lower env tag) = [] \<longrightarrow>
            legacy_assign_material env st tag c =
              Inl (FatalError (no_material_msg (to_lower env tag) (cell_id c)))) \<and>
         stoi ''12abc'' = Inr 12"
proof -
  from assms have nomatch:
    "filter (\<lambda>m. to_lower env (mat_name m) = to_lower env tag) (materials st) = []"
    by (simp add: filter_empty_conv)
  have eq: "legacy_assign_material env st tag c =
      (case assign_by_id (to_lower env tag) (cell_id c) (cell_material c) of
         Inl e \<Rightarrow> Inl e
       | Inr ms \<Rightarrow> (case verbose_lookup env st ms of
                      Inl e \<Rightarrow> Inl e
                    | Inr u \<Rightarrow> Inr (c\<lparr>cell_material := ms\<rparr>)))"
    by (simp add: legacy_assign_material_def name_loop_filter nomatch)
  have a: "\<forall>v. stoi (to_lower env tag) = Inr v \<longrightarrow>
            legacy_assign_material env st tag c =
              (case verbose_lookup env st (cell_material c @ [v]) of
                 Inl e \<Rightarrow> Inl e
               | Inr u \<Rightarrow> Inr (c\<lparr>cell_material := cell_material c @ [v]\<rparr>))"
    by (simp add: eq assign_by_id_def)
  have c: "leading_digits (to_lower env tag) = [] \<longrightarrow>
            legacy_assign_material env st tag c =
              Inl (FatalError (no_material_msg (to_lower env tag) (cell_id c)))"
  proof
    assume "leading_digits (to_lower env tag) = []"
    then have "stoi (to_lower env tag) = Inl invalid_argument" by (simp add: stoi_invalid)
    then show "legacy_assign_material env st tag c =
              Inl (FatalError (no_material_msg (to_lower env tag) (cell_id c)))"
      by (simp add: eq assign_by_id_def)
  qed
  have b: "(\<exists>msg. legacy_assign_material env st tag c = Inl (FatalError msg)) \<longleftrightarrow>
            leading_digits (to_lower env tag) = []"
  proof
    assume "\<exists>msg. legacy_assign_material env st tag c = Inl (FatalError msg)"
    then obtain msg where f: "legacy_assign_material env st tag c = Inl (FatalError msg)" ..
    show "leading_digits (to_lower env tag) = []"
    proof (rule ccontr)
      assume "leading_digits (to_lower env tag) \<noteq> []"
      then have "stoi (to_lower env tag) \<noteq> Inl invalid_argument"
        by (simp add: stoi_invalid)
      with f show False
        using verbose_lookup_not_fatal[of env st _ msg]
        by (auto simp: eq assign_by_id_def split: sum.splits exn.splits)
    qed
  next
    assume "leading_digits (to_lower env tag) = []"
    with c show "\<exists>msg. legacy_assign_material env st tag c = Inl (FatalError msg)" by blast
  qed
  have d: "stoi ''12abc'' = Inr 12"
    by (simp add: stoi_def leading_digits_def strip_sign_def isspace_def isdigit_def
        digits_value_def INT_MAX_def INT_MIN_def)
  from a b c d show ?thesis by blast
qed

theorem C10_leading_integer_witness:
  "legacy_assign_material example_env example_model ''12ABC'' example_cell =
     Inr (example_cell\<lparr>cell_material := [12]\<rparr>)"
  using C10_leading_integer_is_accepted[of example_model example_env "''12ABC''" example_cell]
  by (simp add: verbose_lookup_def example_env_def example_model_def example_cell_def
      ascii_to_lower_def lower_char_def stoi_def leading_digits_def strip_sign_def isspace_def
      isdigit_def digits_value_def INT_MAX_def INT_MIN_def)

section \<open>The loops of \<^verbatim>\<open>initialize\<close>\<close>

text \<open>
  What a successful iteration and a successful loop leave behind. The cell of a volume
  depends on the model only through the materials and their map, which the loops do
  not touch.
\<close>

lemma assign_material_Inr:
  assumes "assign_material env lib st vol s c = Inr c1"
  shows "\<exists>x. c1 = c\<lparr>cell_material := cell_material c @ [x]\<rparr> \<and>
             (s = ''void'' \<or> s = ''vacuum'' \<or> s = ''graveyard'' \<longrightarrow> x = MATERIAL_VOID env)"
proof (cases "s = ''void'' \<or> s = ''vacuum'' \<or> s = ''graveyard''")
  case True
  with assms show ?thesis by (auto simp: assign_material_def)
next
  case False
  with assms show ?thesis
    by (auto simp: assign_material_def split: option.splits if_splits dest: legacy_Inr)
qed

lemma assign_temperature_Inr:
  assumes "assign_temperature env st vol c1 = Inr c2"
  shows "cell_material c1 \<noteq> [] \<and>
         (if hd (cell_material c1) = MATERIAL_VOID env then c2 = c1
          else \<exists>mat T. material_at st (hd (cell_material c1)) = Inr mat \<and>
                 chosen_temperature env vol mat = Inr T \<and>
                 c2 = c1\<lparr>cell_sqrtkT := cell_sqrtkT c1 @
                                          [dsqrt env (dmul env (K_BOLTZMANN env) T)]\<rparr>)"
  using assms
  by (auto simp: assign_temperature_def first_material_def chosen_temperature_def
      split: list.splits sum.splits option.splits if_splits)

lemma material_at_frame:
  assumes "materials st2 = materials st" "material_map st2 = material_map st"
  shows "material_at st2 = material_at st"
  unfolding material_at_def assms by (rule refl)

lemma built_cell_frame:
  assumes "materials st2 = materials st" "material_map st2 = material_map st"
  shows "built_cell env u lib st2 i vol c_id = built_cell env u lib st i vol c_id"
  unfolding built_cell_def assign_material_def assign_temperature_def
    legacy_assign_material_def verbose_lookup_def material_at_frame[OF assms] assms(1)
  by (rule refl)

lemma init_cell_Inr:
  assumes "init_cell env u lib vol_ids i vol (st, n, g) = Inr (st', n', g')"
  shows "\<exists>c_id c. choose_id (adjust_geometry_ids u) n (vol_id vol) = Inr (c_id, n') \<and>
           cell_map st c_id = None \<and>
           built_cell env u lib st i vol c_id = Inr c \<and>
           st' = st\<lparr>cell_map := (cell_map st)(c_id \<mapsto> length (cells st)),
                    cells := cells st @ [c]\<rparr> \<and>
           g' = tracked_graveyard env [vol] g"
proof -
  from assms obtain c_id where
    ch: "choose_id (adjust_geometry_ids u) n (vol_id vol) = Inr (c_id, n')"
    by (auto simp: init_cell_def Let_def split: sum.splits option.splits if_splits)
  from assms ch have fresh: "cell_map st c_id = None"
    by (auto simp: init_cell_def split: option.splits)
  let ?st1 = "st\<lparr>cell_map := (cell_map st)(c_id \<mapsto> length (cells st))\<rparr>"
  from assms ch fresh obtain c where
    b: "built_cell env u lib ?st1 i vol c_id = Inr c" and
    s: "st' = ?st1\<lparr>cells := cells ?st1 @ [c]\<rparr>" and
    g: "g' = tracked_graveyard env [vol] g"
    by (auto simp: init_cell_def built_cell_def tracked_graveyard_def Let_def
        split: sum.splits if_splits)
  have "built_cell env u lib ?st1 i vol c_id = built_cell env u lib st i vol c_id"
    by (rule built_cell_frame) simp_all
  with ch fresh b s g show ?thesis by simp
qed

lemma choose_id_Inr:
  assumes "choose_id adjust n native = Inr (c_id, n')"
  shows "c_id = (if adjust then n else native)" and "n' = (if adjust then n + 1 else n)"
    and "adjust \<Longrightarrow> n < INT_MAX"
  using assms by (auto simp: choose_id_def incr_def split: if_splits)

lemma cell_loop_Inr:
  assumes "cell_loop env u lib vol_ids i vols (st, n, g) = Inr (st', n', g')"
  shows "\<exists>cs. length cs = length vols \<and>
           st' = st\<lparr>cell_map := cell_map st', cells := cells st @ cs\<rparr> \<and>
           (\<forall>k<length vols.
              built_cell env u lib st (i + k) (vols ! k) (cell_id (cs ! k)) = Inr (cs ! k) \<and>
              cell_id (cs ! k) = (if adjust_geometry_ids u then n + int k else vol_id (vols ! k))) \<and>
           n' = (if adjust_geometry_ids u then n + int (length vols) else n) \<and>
           g' = tracked_graveyard env vols g"
  using assms
proof (induction vols arbitrary: i st n g)
  case Nil
  then show ?case by (simp add: tracked_graveyard_def)
next
  case (Cons vol vols)
  from Cons.prems obtain st1 n1 g1 where
    step: "init_cell env u lib vol_ids i vol (st, n, g) = Inr (st1, n1, g1)" and
    rest: "cell_loop env u lib vol_ids (i + 1) vols (st1, n1, g1) = Inr (st', n', g')"
    by (auto split: sum.splits)
  from init_cell_Inr[OF step] obtain c_id c where
    ch: "choose_id (adjust_geometry_ids u) n (vol_id vol) = Inr (c_id, n1)" and
    b: "built_cell env u lib st i vol c_id = Inr c" and
    st1: "st1 = st\<lparr>cell_map := (cell_map st)(c_id \<mapsto> length (cells st)),
                    cells := cells st @ [c]\<rparr>" and
    g1: "g1 = tracked_graveyard env [vol] g"
    by blast
  have cid: "cell_id c = c_id"
    using b
    by (auto simp: built_cell_def split: sum.splits
        dest!: assign_material_Inr assign_temperature_Inr split: if_splits)
  from Cons.IH[OF rest] obtain cs where
    len: "length cs = length vols" and
    st': "st' = st1\<lparr>cell_map := cell_map st', cells := cells st1 @ cs\<rparr>" and
    each: "\<forall>k<length vols.
              built_cell env u lib st1 (i + 1 + k) (vols ! k) (cell_id (cs ! k)) = Inr (cs ! k) \<and>
              cell_id (cs ! k) = (if adjust_geometry_ids u then n1 + int k else vol_id (vols ! k))" and
    n': "n' = (if adjust_geometry_ids u then n1 + int (length vols) else n1)" and
    g': "g' = tracked_graveyard env vols g1"
    by blast
  have frame: "built_cell env u lib st1 j v x = built_cell env u lib st j v x" for j v x
    by (rule built_cell_frame) (simp_all add: st1)
  have each': "\<forall>k<length (vol # vols).
          built_cell env u lib st (i + k) ((vol # vols) ! k) (cell_id ((c # cs) ! k)) = Inr ((c # cs) ! k) \<and>
          cell_id ((c # cs) ! k) =
            (if adjust_geometry_ids u then n + int k else vol_id ((vol # vols) ! k))"
  proof (intro allI impI)
    fix k assume k: "k < length (vol # vols)"
    show "built_cell env u lib st (i + k) ((vol # vols) ! k) (cell_id ((c # cs) ! k)) = Inr ((c # cs) ! k) \<and>
          cell_id ((c # cs) ! k) =
            (if adjust_geometry_ids u then n + int k else vol_id ((vol # vols) ! k))"
    proof (cases k)
      case 0
      with b cid choose_id_Inr(1)[OF ch] show ?thesis by simp
    next
      case (Suc j)
      with k have "j < length vols" by simp
      with each frame Suc choose_id_Inr(2)[OF ch] show ?thesis by (auto simp: algebra_simps)
    qed
  qed
  have st'': "st' = st\<lparr>cell_map := cell_map st', cells := cells st @ (c # cs)\<rparr>"
    by (subst st') (simp add: st1)
  have n'': "n' = (if adjust_geometry_ids u then n + int (length (vol # vols)) else n)"
    using n' choose_id_Inr(2)[OF ch] by simp
  have g'': "g' = tracked_graveyard env (vol # vols) g"
    using g' g1 by (simp add: tracked_graveyard_def)
  show ?case
  proof (intro exI[of _ "c # cs"] conjI)
    show "length (c # cs) = length (vol # vols)" using len by simp
  qed (fact st'' each' n'' g'')+
qed


lemma built_cell_Inr:
  assumes "built_cell env u lib st i vol c_id = Inr c"
  shows "\<exists>x. cell_material c = [x] \<and> cell_id c = c_id \<and> cell_dag_index c = i + 1 \<and>
           cell_universe c = univ_id u \<and>
           (to_lower env (vol_material vol) = ''void'' \<or>
            to_lower env (vol_material vol) = ''vacuum'' \<or>
            to_lower env (vol_material vol) = ''graveyard'' \<longrightarrow> x = MATERIAL_VOID env) \<and>
           (if x = MATERIAL_VOID env then cell_sqrtkT c = []
            else \<exists>mat T. material_at st x = Inr mat \<and> chosen_temperature env vol mat = Inr T \<and>
                   cell_sqrtkT c = [dsqrt env (dmul env (K_BOLTZMANN env) T)])"
proof -
  let ?c0 = "\<lparr>cell_id = c_id, cell_dag_index = i + 1, cell_universe = univ_id u,
              cell_fill = C_NONE env, cell_material = [], cell_sqrtkT = []\<rparr> :: 'a cell"
  from assms obtain c1 where
    m: "assign_material env lib st vol (to_lower env (vol_material vol)) ?c0 = Inr c1" and
    t: "assign_temperature env st vol c1 = Inr c"
    by (auto simp: built_cell_def split: sum.splits)
  from assign_material_Inr[OF m] obtain x where
    c1: "c1 = ?c0\<lparr>cell_material := [x]\<rparr>" and
    void: "to_lower env (vol_material vol) = ''void'' \<or>
           to_lower env (vol_material vol) = ''vacuum'' \<or>
           to_lower env (vol_material vol) = ''graveyard'' \<longrightarrow> x = MATERIAL_VOID env"
    by auto
  have hd1: "hd (cell_material c1) = x" and kT1: "cell_sqrtkT c1 = []" by (simp_all add: c1)
  show ?thesis
  proof (cases "x = MATERIAL_VOID env")
    case True
    with assign_temperature_Inr[OF t] hd1 have "c = c1" by simp
    with c1 void True show ?thesis by simp
  next
    case False
    with assign_temperature_Inr[OF t] hd1 kT1 obtain mat T where
      "material_at st x = Inr mat" "chosen_temperature env vol mat = Inr T"
      "c = c1\<lparr>cell_sqrtkT := [dsqrt env (dmul env (K_BOLTZMANN env) T)]\<rparr>"
      by auto
    with c1 void False show ?thesis by auto
  qed
qed

lemma init_surface_Inr:
  assumes "init_surface env u g surf_ids i sf (st, n) = Inr (st', n')"
  shows "\<exists>s_id bc0. choose_id (adjust_geometry_ids u) n (sf_id sf) = Inr (s_id, n') \<and>
           classify_bc (to_lower env (sf_boundary sf)) s_id = Inr bc0 \<and>
           surface_map st s_id = None \<and>
           st' = st\<lparr>surface_map := (surface_map st)(s_id \<mapsto> length (surfaces st)),
                    surfaces := surfaces st @
                      [\<lparr>surf_id = s_id, surf_dag_index = i + 1,
                        surf_bc = graveyard_check g (sf_parents sf) bc0\<rparr>]\<rparr>"
  using assms
  by (auto simp: init_surface_def Let_def split: sum.splits option.splits)

lemma surface_loop_Inr:
  assumes "surface_loop env u g surf_ids i sfs (st, n) = Inr (st', n')"
  shows "\<exists>ss. length ss = length sfs \<and>
           st' = st\<lparr>surface_map := surface_map st', surfaces := surfaces st @ ss\<rparr> \<and>
           (\<forall>k<length sfs.
              surf_id (ss ! k) = (if adjust_geometry_ids u then n + int k else sf_id (sfs ! k)) \<and>
              surf_dag_index (ss ! k) = i + k + 1 \<and>
              (\<exists>bc0. classify_bc (to_lower env (sf_boundary (sfs ! k))) (surf_id (ss ! k)) = Inr bc0 \<and>
                 surf_bc (ss ! k) = graveyard_check g (sf_parents (sfs ! k)) bc0)) \<and>
           n' = (if adjust_geometry_ids u then n + int (length sfs) else n)"
  using assms
proof (induction sfs arbitrary: i st n)
  case Nil
  then show ?case by simp
next
  case (Cons sf sfs)
  from Cons.prems obtain st1 n1 where
    step: "init_surface env u g surf_ids i sf (st, n) = Inr (st1, n1)" and
    rest: "surface_loop env u g surf_ids (i + 1) sfs (st1, n1) = Inr (st', n')"
    by (auto split: sum.splits)
  from init_surface_Inr[OF step] obtain s_id bc0 where
    ch: "choose_id (adjust_geometry_ids u) n (sf_id sf) = Inr (s_id, n1)" and
    bc: "classify_bc (to_lower env (sf_boundary sf)) s_id = Inr bc0" and
    st1: "st1 = st\<lparr>surface_map := (surface_map st)(s_id \<mapsto> length (surfaces st)),
                    surfaces := surfaces st @
                      [\<lparr>surf_id = s_id, surf_dag_index = i + 1,
                        surf_bc = graveyard_check g (sf_parents sf) bc0\<rparr>]\<rparr>"
    by blast
  let ?s = "\<lparr>surf_id = s_id, surf_dag_index = i + 1,
             surf_bc = graveyard_check g (sf_parents sf) bc0\<rparr>"
  from Cons.IH[OF rest] obtain ss where
    len: "length ss = length sfs" and
    st': "st' = st1\<lparr>surface_map := surface_map st', surfaces := surfaces st1 @ ss\<rparr>" and
    each: "\<forall>k<length sfs.
              surf_id (ss ! k) = (if adjust_geometry_ids u then n1 + int k else sf_id (sfs ! k)) \<and>
              surf_dag_index (ss ! k) = i + 1 + k + 1 \<and>
              (\<exists>bc0. classify_bc (to_lower env (sf_boundary (sfs ! k))) (surf_id (ss ! k)) = Inr bc0 \<and>
                 surf_bc (ss ! k) = graveyard_check g (sf_parents (sfs ! k)) bc0)" and
    n': "n' = (if adjust_geometry_ids u then n1 + int (length sfs) else n1)"
    by blast
  have each': "\<forall>k<length (sf # sfs).
              surf_id ((?s # ss) ! k) =
                (if adjust_geometry_ids u then n + int k else sf_id ((sf # sfs) ! k)) \<and>
              surf_dag_index ((?s # ss) ! k) = i + k + 1 \<and>
              (\<exists>bc0. classify_bc (to_lower env (sf_boundary ((sf # sfs) ! k)))
                        (surf_id ((?s # ss) ! k)) = Inr bc0 \<and>
                 surf_bc ((?s # ss) ! k) = graveyard_check g (sf_parents ((sf # sfs) ! k)) bc0)"
  proof (intro allI impI)
    fix k assume k: "k < length (sf # sfs)"
    show "surf_id ((?s # ss) ! k) =
                (if adjust_geometry_ids u then n + int k else sf_id ((sf # sfs) ! k)) \<and>
              surf_dag_index ((?s # ss) ! k) = i + k + 1 \<and>
              (\<exists>bc0. classify_bc (to_lower env (sf_boundary ((sf # sfs) ! k)))
                        (surf_id ((?s # ss) ! k)) = Inr bc0 \<and>
                 surf_bc ((?s # ss) ! k) = graveyard_check g (sf_parents ((sf # sfs) ! k)) bc0)"
    proof (cases k)
      case 0
      with bc choose_id_Inr(1)[OF ch] show ?thesis by simp
    next
      case (Suc j)
      with k have "j < length sfs" by simp
      with each Suc choose_id_Inr(2)[OF ch] show ?thesis by (auto simp: algebra_simps)
    qed
  qed
  have st'': "st' = st\<lparr>surface_map := surface_map st', surfaces := surfaces st @ (?s # ss)\<rparr>"
    by (subst st') (simp add: st1)
  have n'': "n' = (if adjust_geometry_ids u then n + int (length (sf # sfs)) else n)"
    using n' choose_id_Inr(2)[OF ch] by simp
  show ?case
  proof (intro exI[of _ "?s # ss"] conjI)
    show "length (?s # ss) = length (sf # sfs)" using len by simp
  qed (fact st'' each' n'')+
qed

text \<open>The highest id of lines 233-236 is the maximum of 0 and the ids.\<close>

lemma highest_id_Max: "highest_id ids = Max (insert 0 (set ids))"
proof -
  have "(\<lambda>next_id x. if x > next_id then x else next_id) = (\<lambda>a x :: int. max x a)"
    by (auto simp: fun_eq_iff max_def)
  then have "highest_id ids = fold max ids 0"
    by (simp add: highest_id_def foldl_conv_fold)
  also have "\<dots> = Max (set (0 # ids))" by (simp only: Max.set_eq_fold)
  finally show ?thesis by simp
qed

section \<open>The whole import\<close>

text \<open>
  A successful \<^verbatim>\<open>initialize\<close> appends one cell per volume and one surface per surface
  entity, in the order of the file, and leaves the materials as
  \<^verbatim>\<open>read_uwuw_materials\<close> left them.
\<close>

lemma incr_Inr: "incr x = Inr y \<Longrightarrow> y = x + 1"
  by (simp add: incr_def split: if_splits)

lemma initialize_Inr:
  assumes "initialize env u mesh st = Inr (offs, st')"
  shows "\<exists>cs ss lib.
     offs = (length (cells st), length (surfaces st)) \<and>
     cells st' = cells st @ cs \<and> length cs = length (dag_volumes mesh) \<and>
     surfaces st' = surfaces st @ ss \<and> length ss = length (dag_surfaces mesh) \<and>
     read_uwuw_materials env u st = Inr (lib, materials st', material_map st') \<and>
     (\<forall>k<length (dag_volumes mesh).
        built_cell env u (Some lib) st' k (dag_volumes mesh ! k) (cell_id (cs ! k)) = Inr (cs ! k) \<and>
        cell_id (cs ! k) =
          (if adjust_geometry_ids u then highest_id (map cell_id (cells st)) + 1 + int k
           else vol_id (dag_volumes mesh ! k))) \<and>
     (\<forall>k<length (dag_surfaces mesh).
        surf_id (ss ! k) =
          (if adjust_geometry_ids u then highest_id (map surf_id (surfaces st)) + 1 + int k
           else sf_id (dag_surfaces mesh ! k)) \<and>
        surf_dag_index (ss ! k) = k + 1 \<and>
        (\<exists>bc0. classify_bc (to_lower env (sf_boundary (dag_surfaces mesh ! k))) (surf_id (ss ! k)) = Inr bc0 \<and>
           surf_bc (ss ! k) =
             graveyard_check (tracked_graveyard env (dag_volumes mesh) 0)
               (sf_parents (dag_surfaces mesh ! k)) bc0))"
proof -
  let ?vols = "dag_volumes mesh" and ?sfs = "dag_surfaces mesh"
  from assms obtain nc ns lib ms mm st2 nc' g st3 ns' where
    nc: "incr (highest_id (map cell_id (cells st))) = Inr nc" and
    ns: "incr (highest_id (map surf_id (surfaces st))) = Inr ns" and
    rd: "read_uwuw_materials env u st = Inr (lib, ms, mm)" and
    cl: "cell_loop env u (Some lib) (map vol_id ?vols) 0 ?vols
           (st\<lparr>materials := ms, material_map := mm\<rparr>, nc, 0) = Inr (st2, nc', g)" and
    sl: "surface_loop env u g (map sf_id ?sfs) 0 ?sfs
           (if check_overlaps env
            then st2\<lparr>overlap_check_count := resize (length (cells st2)) (overlap_check_count st2)\<rparr>
            else st2, ns) = Inr (st3, ns')" and
    res: "offs = (length (cells st), length (surfaces st))" "st' = st3"
    by (auto simp: initialize_def split: sum.splits prod.splits)
  let ?st0 = "st\<lparr>materials := ms, material_map := mm\<rparr>"
  let ?st2' = "if check_overlaps env
            then st2\<lparr>overlap_check_count := resize (length (cells st2)) (overlap_check_count st2)\<rparr>
            else st2"
  from cell_loop_Inr[OF cl] obtain cs where
    lcs: "length cs = length ?vols" and
    st2: "st2 = ?st0\<lparr>cell_map := cell_map st2, cells := cells ?st0 @ cs\<rparr>" and
    ec: "\<forall>k<length ?vols.
           built_cell env u (Some lib) ?st0 (0 + k) (?vols ! k) (cell_id (cs ! k)) = Inr (cs ! k) \<and>
           cell_id (cs ! k) = (if adjust_geometry_ids u then nc + int k else vol_id (?vols ! k))" and
    g: "g = tracked_graveyard env ?vols 0"
    by blast
  from surface_loop_Inr[OF sl] obtain ss where
    lss: "length ss = length ?sfs" and
    st3: "st3 = ?st2'\<lparr>surface_map := surface_map st3, surfaces := surfaces ?st2' @ ss\<rparr>" and
    es: "\<forall>k<length ?sfs.
           surf_id (ss ! k) = (if adjust_geometry_ids u then ns + int k else sf_id (?sfs ! k)) \<and>
           surf_dag_index (ss ! k) = 0 + k + 1 \<and>
           (\<exists>bc0. classify_bc (to_lower env (sf_boundary (?sfs ! k))) (surf_id (ss ! k)) = Inr bc0 \<and>
              surf_bc (ss ! k) = graveyard_check g (sf_parents (?sfs ! k)) bc0)"
    by blast
  have c2: "cells st2 = cells st @ cs" "surfaces st2 = surfaces st"
    "materials st2 = ms" "material_map st2 = mm"
    by (subst st2, simp)+
  have c2': "cells ?st2' = cells st @ cs" "surfaces ?st2' = surfaces st"
    "materials ?st2' = ms" "material_map ?st2' = mm"
    using c2 by simp_all
  have c3: "cells st3 = cells st @ cs" "surfaces st3 = surfaces st @ ss"
    "materials st3 = ms" "material_map st3 = mm"
    by (subst st3, simp add: c2' del: if_split)+
  have frame: "built_cell env u (Some lib) st3 j v x = built_cell env u (Some lib) ?st0 j v x" for j v x
    by (rule built_cell_frame) (simp_all add: c3)
  show ?thesis
  proof (intro exI[of _ cs] exI[of _ ss] exI[of _ lib] conjI)
    show "offs = (length (cells st), length (surfaces st))" by (fact res)
    show "cells st' = cells st @ cs" by (simp add: res c3)
    show "length cs = length ?vols" by (fact lcs)
    show "surfaces st' = surfaces st @ ss" by (simp add: res c3)
    show "length ss = length ?sfs" by (fact lss)
    show "read_uwuw_materials env u st = Inr (lib, materials st', material_map st')"
      by (simp add: res c3 rd)
    show "\<forall>k<length ?vols.
        built_cell env u (Some lib) st' k (?vols ! k) (cell_id (cs ! k)) = Inr (cs ! k) \<and>
        cell_id (cs ! k) =
          (if adjust_geometry_ids u then highest_id (map cell_id (cells st)) + 1 + int k
           else vol_id (?vols ! k))"
      using ec incr_Inr[OF nc] by (auto simp: res frame)
    show "\<forall>k<length ?sfs.
        surf_id (ss ! k) =
          (if adjust_geometry_ids u then highest_id (map surf_id (surfaces st)) + 1 + int k
           else sf_id (?sfs ! k)) \<and>
        surf_dag_index (ss ! k) = k + 1 \<and>
        (\<exists>bc0. classify_bc (to_lower env (sf_boundary (?sfs ! k))) (surf_id (ss ! k)) = Inr bc0 \<and>
           surf_bc (ss ! k) =
             graveyard_check (tracked_graveyard env ?vols 0) (sf_parents (?sfs ! k)) bc0)"
      using es incr_Inr[OF ns] g by auto
  qed
qed

lemma initialize_cell:
  assumes "initialize env u mesh st = Inr (offs, st')" and "k < length (dag_volumes mesh)"
  shows "\<exists>lib. built_cell env u (Some lib) st' k (dag_volumes mesh ! k)
                 (cell_id (cells st' ! (fst offs + k))) = Inr (cells st' ! (fst offs + k))"
proof -
  from initialize_Inr[OF assms(1)] obtain cs lib where
    offs: "offs = (length (cells st), length (surfaces st))" and
    cl: "cells st' = cells st @ cs" and
    each: "\<forall>k<length (dag_volumes mesh).
        built_cell env u (Some lib) st' k (dag_volumes mesh ! k) (cell_id (cs ! k)) = Inr (cs ! k)"
    by blast
  have "cells st' ! (fst offs + k) = cs ! k" by (simp add: offs cl)
  with each assms(2) show ?thesis by auto
qed

text \<open>The concrete import of the examples, computed.\<close>

lemmas example_defs = example_env_def example_model_def example_mesh_def example_universe_def
  example_stod_def example_cell_def example_materials_only_def example_mesh_minus_1_def
  example_mesh_42_def example_mesh_42_44_def example_mesh_void_def ascii_to_lower_def
  lower_char_def

lemmas run_defs = initialize_def cell_loop.simps surface_loop.simps init_cell_def
  init_surface_def choose_id_def incr_def INT_MAX_def INT_MIN_def highest_id_def
  assign_material_def assign_temperature_def legacy_assign_material_def name_loop.simps
  assign_by_id_def verbose_lookup_def material_at_def first_material_def classify_bc_def
  graveyard_check_def resize_def uses_uwuw_def stoi_def leading_digits_def strip_sign_def
  isspace_def isdigit_def digits_value_def Let_def

lemma example_import:
  "initialize example_env (example_universe True) example_mesh example_model =
     Inr ((1, 1),
       \<lparr>cells = [\<lparr>cell_id = 42, cell_dag_index = 0, cell_universe = 0, cell_fill = - 1,
                 cell_material = [7], cell_sqrtkT = []\<rparr>,
                 \<lparr>cell_id = 43, cell_dag_index = 1, cell_universe = 2, cell_fill = - 1,
                 cell_material = [7], cell_sqrtkT = [sqrt (8617333262 / 100000000000000 * 600)]\<rparr>,
                 \<lparr>cell_id = 44, cell_dag_index = 2, cell_universe = 2, cell_fill = - 1,
                 cell_material = [8], cell_sqrtkT = [sqrt (8617333262 / 100000000000000 * 300)]\<rparr>,
                 \<lparr>cell_id = 45, cell_dag_index = 3, cell_universe = 2, cell_fill = - 1,
                 cell_material = [8], cell_sqrtkT = [sqrt (8617333262 / 100000000000000 * 293)]\<rparr>,
                 \<lparr>cell_id = 46, cell_dag_index = 4, cell_universe = 2, cell_fill = - 1,
                 cell_material = [- 1], cell_sqrtkT = []\<rparr>],
        cell_map = [42 \<mapsto> 0, 43 \<mapsto> 1, 44 \<mapsto> 2, 45 \<mapsto> 3, 46 \<mapsto> 4],
        surfaces = [\<lparr>surf_id = 4, surf_dag_index = 0, surf_bc = None\<rparr>,
                    \<lparr>surf_id = 5, surf_dag_index = 1, surf_bc = Some VacuumBC\<rparr>,
                    \<lparr>surf_id = 6, surf_dag_index = 2, surf_bc = None\<rparr>],
        surface_map = [4 \<mapsto> 0, 5 \<mapsto> 1, 6 \<mapsto> 2],
        materials = [\<lparr>mat_id = 7, mat_name = ''Steel'', mat_temperature = 600\<rparr>,
                     \<lparr>mat_id = 8, mat_name = ''Water'', mat_temperature = 0\<rparr>],
        material_map = [7 \<mapsto> 0, 8 \<mapsto> 1],
        overlap_check_count = [0, 0, 0, 0, 0]\<rparr>)"
  by (simp add: run_defs example_defs eval_nat_numeral)

lemma example_import_succeeds:
  "\<exists>offs st'. initialize example_env (example_universe True) example_mesh example_model =
     Inr (offs, st')"
  by (simp add: example_import)

lemma example_import_materials:
  assumes "initialize example_env (example_universe True) example_mesh example_model = Inr (offs, st')"
  shows "hd (cell_material (cells st' ! (fst offs + 0))) = 7"
    and "hd (cell_material (cells st' ! (fst offs + 1))) = 8"
    and "hd (cell_material (cells st' ! (fst offs + 2))) = 8"
    and "materials st' = materials example_model"
    and "material_map st' = material_map example_model"
  using assms[unfolded example_import] by (auto simp: example_model_def)

lemma example_import_from_scratch_succeeds:
  "\<exists>offs st'. initialize example_env (example_universe True) example_mesh example_materials_only =
     Inr (offs, st')"
  by (simp add: run_defs example_defs)

section \<open>Boundary conditions\<close>

text \<open>
  Claim C3: in a successful import, every surface whose parent volumes contain the
  tracked graveyard volume (the handle left in \<^verbatim>\<open>graveyard\<close> by the loop over the
  volumes, which is not 0) has the vacuum boundary condition, whatever its
  \<^verbatim>\<open>boundary\<close> tag: the graveyard check of lines 406-415 comes after the
  classification of the tag and overwrites its result. The surface at position
  \<^verbatim>\<open>surf_idx_offset_ + k\<close> is the one built for the \<open>k\<close>-th surface of the file.
\<close>

theorem C3_graveyard_surfaces_are_vacuum:
  assumes "initialize env u mesh st = Inr (offs, st')"
      and "k < length (dag_surfaces mesh)"
      and "tracked_graveyard env (dag_volumes mesh) 0 \<noteq> 0"
      and "tracked_graveyard env (dag_volumes mesh) 0 \<in> set (sf_parents (dag_surfaces mesh ! k))"
  shows "surf_dag_index (surfaces st' ! (snd offs + k)) = k + 1 \<and>
         surf_bc (surfaces st' ! (snd offs + k)) = Some VacuumBC"
proof -
  from initialize_Inr[OF assms(1)] obtain ss where
    offs: "offs = (length (cells st), length (surfaces st))" and
    sf: "surfaces st' = surfaces st @ ss" and
    each: "\<forall>k<length (dag_surfaces mesh).
        surf_dag_index (ss ! k) = k + 1 \<and>
        (\<exists>bc0. surf_bc (ss ! k) =
             graveyard_check (tracked_graveyard env (dag_volumes mesh) 0)
               (sf_parents (dag_surfaces mesh ! k)) bc0)"
    by blast
  have "surfaces st' ! (snd offs + k) = ss ! k" by (simp add: offs sf)
  with each assms(2-4) show ?thesis by (auto simp: graveyard_check_def)
qed

text \<open>
  In the concrete import the first surface is tagged \<^verbatim>\<open>Reflective\<close> and bounds the
  graveyard volume (handle 14): it ends with the vacuum boundary condition.
\<close>

theorem C3_graveyard_surfaces_witness:
  "sf_boundary (dag_surfaces example_mesh ! 0) = ''Reflective'' \<and>
   (case initialize example_env (example_universe True) example_mesh example_model of
      Inr (offs, st') \<Rightarrow> surf_bc (surfaces st' ! (snd offs + 0)) = Some VacuumBC
    | Inl e \<Rightarrow> False)"
proof -
  from example_import_succeeds obtain offs st' where
    run: "initialize example_env (example_universe True) example_mesh example_model = Inr (offs, st')"
    by blast
  have "surf_bc (surfaces st' ! (snd offs + 0)) = Some VacuumBC"
    using C3_graveyard_surfaces_are_vacuum[OF run, of 0]
    by (simp add: tracked_graveyard_def example_defs)
  with run show ?thesis by (simp add: example_mesh_def)
qed

section \<open>Materials and temperatures of the cells\<close>

text \<open>
  Claim C6, as the code has it. The cell built for a volume has exactly one material.
  If the lowered tag is \<^verbatim>\<open>void\<close>, \<^verbatim>\<open>vacuum\<close> or \<^verbatim>\<open>graveyard\<close>, this is the VOID
  sentinel and the cell has no temperature. For every volume the list of temperatures
  is decided by the material (line 346), not by the tag: it is empty if the material
  is the VOID sentinel and has exactly one entry otherwise.
\<close>

theorem C6_materials_and_temperatures_of_cells:
  assumes "initialize env u mesh st = Inr (offs, st')" and "k < length (dag_volumes mesh)"
  shows "length (cell_material (cells st' ! (fst offs + k))) = 1 \<and>
         (to_lower env (vol_material (dag_volumes mesh ! k)) = ''void'' \<or>
          to_lower env (vol_material (dag_volumes mesh ! k)) = ''vacuum'' \<or>
          to_lower env (vol_material (dag_volumes mesh ! k)) = ''graveyard'' \<longrightarrow>
            cell_material (cells st' ! (fst offs + k)) = [MATERIAL_VOID env] \<and>
            cell_sqrtkT (cells st' ! (fst offs + k)) = []) \<and>
         (if hd (cell_material (cells st' ! (fst offs + k))) = MATERIAL_VOID env
          then cell_sqrtkT (cells st' ! (fst offs + k)) = []
          else length (cell_sqrtkT (cells st' ! (fst offs + k))) = 1)"
proof -
  from initialize_cell[OF assms] obtain lib where
    "built_cell env u (Some lib) st' k (dag_volumes mesh ! k)
       (cell_id (cells st' ! (fst offs + k))) = Inr (cells st' ! (fst offs + k))" ..
  from built_cell_Inr[OF this] show ?thesis by (auto split: if_splits)
qed

theorem C6_materials_and_temperatures_witness:
  "(case initialize example_env (example_universe True) example_mesh example_model of
      Inr (offs, st') \<Rightarrow>
        cell_material (cells st' ! (fst offs + 3)) = [- 1] \<and>
        cell_sqrtkT (cells st' ! (fst offs + 3)) = [] \<and>
        length (cell_material (cells st' ! (fst offs + 0))) = 1 \<and>
        length (cell_sqrtkT (cells st' ! (fst offs + 0))) = 1
    | Inl e \<Rightarrow> False)"
proof -
  from example_import_succeeds obtain offs st' where
    run: "initialize example_env (example_universe True) example_mesh example_model = Inr (offs, st')"
    by blast
  have void: "cell_material (cells st' ! (fst offs + 3)) = [- 1] \<and>
        cell_sqrtkT (cells st' ! (fst offs + 3)) = []"
    using C6_materials_and_temperatures_of_cells[OF run, of 3]
    by (simp add: example_defs)
  have "hd (cell_material (cells st' ! (fst offs + 0))) = 7"
    by (rule example_import_materials(1)[OF run])
  then have steel: "length (cell_material (cells st' ! (fst offs + 0))) = 1 \<and>
        length (cell_sqrtkT (cells st' ! (fst offs + 0))) = 1"
    using C6_materials_and_temperatures_of_cells[OF run, of 0]
    by (simp add: example_defs)
  from run void steel show ?thesis by simp
qed

text \<open>
  The second half of claim C6 as it was stated fails: a volume whose tag is \<^verbatim>\<open>-1\<close> is
  none of the three reserved tags; in legacy mode, with no material of that name, the
  tag is read as the id -1, which is the VOID sentinel of the example environment, and
  its cell (id 5) has no temperature.
\<close>

theorem C6_tag_minus_1_gives_a_void_cell:
  "initialize example_env (example_universe False) example_mesh_minus_1 example_model =
     Inr ((1, 1),
       \<lparr>cells = [\<lparr>cell_id = 42, cell_dag_index = 0, cell_universe = 0, cell_fill = - 1,
                 cell_material = [7], cell_sqrtkT = []\<rparr>,
                 \<lparr>cell_id = 5, cell_dag_index = 1, cell_universe = 2, cell_fill = - 1,
                 cell_material = [- 1], cell_sqrtkT = []\<rparr>],
        cell_map = [42 \<mapsto> 0, 5 \<mapsto> 1],
        surfaces = [\<lparr>surf_id = 4, surf_dag_index = 0, surf_bc = None\<rparr>],
        surface_map = [4 \<mapsto> 0],
        materials = [\<lparr>mat_id = 7, mat_name = ''Steel'', mat_temperature = 600\<rparr>,
                     \<lparr>mat_id = 8, mat_name = ''Water'', mat_temperature = 0\<rparr>],
        material_map = [7 \<mapsto> 0, 8 \<mapsto> 1],
        overlap_check_count = [0, 0]\<rparr>)"
  by (simp add: run_defs example_defs eval_nat_numeral)

text \<open>
  Claim C8: for a cell whose first material is not the VOID sentinel, the one stored
  temperature is \<^verbatim>\<open>sqrt(K_BOLTZMANN * T)\<close>, in the double arithmetic of the
  environment, where \<open>T\<close> is the chosen temperature of the volume and of the material
  that \<^verbatim>\<open>model::materials[model::material_map.at(material_[0])]\<close> resolves to: the
  \<^verbatim>\<open>temp\<close> property read by \<^verbatim>\<open>std::stod\<close> if the volume has one, otherwise the
  temperature of the material if it is positive, otherwise the default temperature.
\<close>

theorem C8_temperature_of_non_void_cells:
  assumes "initialize env u mesh st = Inr (offs, st')" and "k < length (dag_volumes mesh)"
      and "hd (cell_material (cells st' ! (fst offs + k))) \<noteq> MATERIAL_VOID env"
  shows "\<exists>mat T.
           material_at st' (hd (cell_material (cells st' ! (fst offs + k)))) = Inr mat \<and>
           chosen_temperature env (dag_volumes mesh ! k) mat = Inr T \<and>
           cell_sqrtkT (cells st' ! (fst offs + k)) = [dsqrt env (dmul env (K_BOLTZMANN env) T)]"
proof -
  from initialize_cell[OF assms(1,2)] obtain lib where
    "built_cell env u (Some lib) st' k (dag_volumes mesh ! k)
       (cell_id (cells st' ! (fst offs + k))) = Inr (cells st' ! (fst offs + k))" ..
  from built_cell_Inr[OF this] assms(3) show ?thesis by (auto split: if_splits)
qed

text \<open>
  In the concrete import: steel at its own 600 K, the volume with \<^verbatim>\<open>temp\<close> 300 at
  300 K, and water, which has no positive temperature, at the default of 293 K.
\<close>

theorem C8_temperature_witness:
  "(case initialize example_env (example_universe True) example_mesh example_model of
      Inr (offs, st') \<Rightarrow>
        cell_sqrtkT (cells st' ! (fst offs + 0)) = [sqrt (K_BOLTZMANN example_env * 600)] \<and>
        cell_sqrtkT (cells st' ! (fst offs + 1)) = [sqrt (K_BOLTZMANN example_env * 300)] \<and>
        cell_sqrtkT (cells st' ! (fst offs + 2)) = [sqrt (K_BOLTZMANN example_env * 293)]
    | Inl e \<Rightarrow> False)"
proof -
  from example_import_succeeds obtain offs st' where
    run: "initialize example_env (example_universe True) example_mesh example_model = Inr (offs, st')"
    by blast
  note m = example_import_materials[OF run]
  note hd = m(1-3)
  have at: "material_at st' 7 = Inr \<lparr>mat_id = 7, mat_name = ''Steel'', mat_temperature = 600\<rparr>"
    "material_at st' 8 = Inr \<lparr>mat_id = 8, mat_name = ''Water'', mat_temperature = 0\<rparr>"
    by (simp_all add: material_at_def m(4,5) example_model_def)
  have 0: "cell_sqrtkT (cells st' ! (fst offs + 0)) = [sqrt (K_BOLTZMANN example_env * 600)]"
    using C8_temperature_of_non_void_cells[OF run, of 0] hd(1) at(1)
    by (auto simp: chosen_temperature_def example_defs)
  have 1: "cell_sqrtkT (cells st' ! (fst offs + 1)) = [sqrt (K_BOLTZMANN example_env * 300)]"
    using C8_temperature_of_non_void_cells[OF run, of 1] hd(2) at(2)
    by (auto simp: chosen_temperature_def example_defs stoi_def leading_digits_def strip_sign_def
        isspace_def isdigit_def digits_value_def INT_MAX_def INT_MIN_def)
  have 2: "cell_sqrtkT (cells st' ! (fst offs + 2)) = [sqrt (K_BOLTZMANN example_env * 293)]"
    using C8_temperature_of_non_void_cells[OF run, of 2] hd(3) at(2)
    by (auto simp: chosen_temperature_def example_defs)
  from run 0 1 2 show ?thesis by simp
qed

section \<open>Renumbered ids\<close>

text \<open>
  Claim C7: with \<^verbatim>\<open>adjust_geometry_ids_\<close> set, a successful import gives the cells of
  the file, in the order of the file (the cell with \<^verbatim>\<open>dag_index_ = k + 1\<close> at position
  \<open>k\<close>), the ids \<open>h + 1, h + 2, ...\<close>, where \<open>h\<close> is the highest id of the cells that
  were in \<^verbatim>\<open>model::cells\<close> before, and 0 if there was none (ids being positive); the
  same holds for the surfaces.
\<close>

theorem C7_renumbered_ids_are_sequential:
  assumes "initialize env u mesh st = Inr (offs, st')" and "adjust_geometry_ids u"
  shows "map cell_id (cells st') =
           map cell_id (cells st) @
           map (\<lambda>k. Max (insert 0 (cell_id ` set (cells st))) + 1 + int k)
             [0..<length (dag_volumes mesh)] \<and>
         map surf_id (surfaces st') =
           map surf_id (surfaces st) @
           map (\<lambda>k. Max (insert 0 (surf_id ` set (surfaces st))) + 1 + int k)
             [0..<length (dag_surfaces mesh)] \<and>
         map cell_dag_index (drop (fst offs) (cells st')) =
           map (\<lambda>k. k + 1) [0..<length (dag_volumes mesh)] \<and>
         map surf_dag_index (drop (snd offs) (surfaces st')) =
           map (\<lambda>k. k + 1) [0..<length (dag_surfaces mesh)]"
proof -
  from initialize_Inr[OF assms(1)] obtain cs ss lib where
    offs: "offs = (length (cells st), length (surfaces st))" and
    cl: "cells st' = cells st @ cs" and lcs: "length cs = length (dag_volumes mesh)" and
    sl: "surfaces st' = surfaces st @ ss" and lss: "length ss = length (dag_surfaces mesh)" and
    ec: "\<forall>k<length (dag_volumes mesh).
        built_cell env u (Some lib) st' k (dag_volumes mesh ! k) (cell_id (cs ! k)) = Inr (cs ! k) \<and>
        cell_id (cs ! k) =
          (if adjust_geometry_ids u then highest_id (map cell_id (cells st)) + 1 + int k
           else vol_id (dag_volumes mesh ! k))" and
    es: "\<forall>k<length (dag_surfaces mesh).
        surf_id (ss ! k) =
          (if adjust_geometry_ids u then highest_id (map surf_id (surfaces st)) + 1 + int k
           else sf_id (dag_surfaces mesh ! k)) \<and>
        surf_dag_index (ss ! k) = k + 1"
    by blast
  have hc: "highest_id (map cell_id (cells st)) = Max (insert 0 (cell_id ` set (cells st)))"
    by (simp add: highest_id_Max)
  have hs: "highest_id (map surf_id (surfaces st)) = Max (insert 0 (surf_id ` set (surfaces st)))"
    by (simp add: highest_id_Max)
  have 1: "map cell_id cs =
      map (\<lambda>k. Max (insert 0 (cell_id ` set (cells st))) + 1 + int k) [0..<length (dag_volumes mesh)]"
    using ec assms(2) lcs by (intro nth_equalityI) (simp_all add: hc)
  have 2: "map surf_id ss =
      map (\<lambda>k. Max (insert 0 (surf_id ` set (surfaces st))) + 1 + int k) [0..<length (dag_surfaces mesh)]"
    using es assms(2) lss by (intro nth_equalityI) (simp_all add: hs)
  have 3: "map cell_dag_index cs = map (\<lambda>k. k + 1) [0..<length (dag_volumes mesh)]"
  proof (intro nth_equalityI)
    show "length (map cell_dag_index cs) = length (map (\<lambda>k. k + 1) [0..<length (dag_volumes mesh)])"
      using lcs by simp
  next
    fix k assume "k < length (map cell_dag_index cs)"
    then have k: "k < length (dag_volumes mesh)" using lcs by simp
    with ec have "built_cell env u (Some lib) st' k (dag_volumes mesh ! k) (cell_id (cs ! k)) = Inr (cs ! k)"
      by blast
    from built_cell_Inr[OF this] have "cell_dag_index (cs ! k) = k + 1" by blast
    with k lcs show "map cell_dag_index cs ! k = map (\<lambda>k. k + 1) [0..<length (dag_volumes mesh)] ! k"
      by simp
  qed
  have 4: "map surf_dag_index ss = map (\<lambda>k. k + 1) [0..<length (dag_surfaces mesh)]"
    using es lss by (intro nth_equalityI) simp_all
  from 1 2 3 4 show ?thesis by (simp add: offs cl sl)
qed

text \<open>
  In the concrete import the ids follow the CSG cell 42 and the surface 4; from a model
  without cells and surfaces they are 1, 2, 3, 4 and 1, 2.
\<close>

theorem C7_renumbered_ids_witness:
  "(case initialize example_env (example_universe True) example_mesh example_model of
      Inr (offs, st') \<Rightarrow>
        map cell_id (cells st') = [42, 43, 44, 45, 46] \<and> map surf_id (surfaces st') = [4, 5, 6]
    | Inl e \<Rightarrow> False) \<and>
   (case initialize example_env (example_universe True) example_mesh example_materials_only of
      Inr (offs, st') \<Rightarrow>
        map cell_id (cells st') = [1, 2, 3, 4] \<and> map surf_id (surfaces st') = [1, 2]
    | Inl e \<Rightarrow> False)"
proof -
  from example_import_succeeds obtain offs st' where
    run: "initialize example_env (example_universe True) example_mesh example_model = Inr (offs, st')"
    by blast
  from example_import_from_scratch_succeeds obtain offs2 st2 where
    run2: "initialize example_env (example_universe True) example_mesh example_materials_only =
             Inr (offs2, st2)"
    by blast
  have up: "[0..<4] = [0, 1, 2, 3]" "[0..<2] = [0, 1]" by (simp_all add: upt_rec)
  have 1: "map cell_id (cells st') = [42, 43, 44, 45, 46] \<and> map surf_id (surfaces st') = [4, 5, 6]"
    using C7_renumbered_ids_are_sequential[OF run]
    by (simp add: example_defs up)
  have 2: "map cell_id (cells st2) = [1, 2, 3, 4] \<and> map surf_id (surfaces st2) = [1, 2]"
    using C7_renumbered_ids_are_sequential[OF run2]
    by (simp add: example_defs up)
  from run run2 1 2 show ?thesis by simp
qed

section \<open>Collisions of ids\<close>









text \<open>
  A collision as the specification describes it: the file has the volumes 42 and 44,
  the listing is computed, and the import ends in the fatal error with the model
  unchanged.
\<close>

lemma collision_42_44:
  "initialize example_env (example_universe False) example_mesh_42_44 example_model =
     Inl (FatalError ''Cell ID 42 exists in both DAGMC Universe 2 and the CSG geometry.'',
          example_model)"
  by (simp add: initialize_def cell_loop.simps init_cell_def choose_id_def incr_def INT_MAX_def
      highest_id_def example_env_def example_model_def example_universe_def
      example_mesh_42_44_def collision_def dagmc_ids_for_dim_def id_at_def ids_loop.simps
      cell_collision_msg_def show_int_def show_nat.simps digit_char_def Let_def)

text \<open>
  The collision branch computes the listing of ids for the warning before it calls
  \<^verbatim>\<open>fatal_error\<close> (lines 302 and 423). For a file whose single volume has the id 42 of
  the CSG cell, the listing is one of those that read \<^verbatim>\<open>id_vec\<close> past its end, and the
  model records that read; the model of the simulation is as the import found it.
\<close>

lemma collision_with_a_listing_of_one_id:
  "initialize example_env (example_universe False) example_mesh_42 example_model =
     Inl (Undefined OutOfBoundsRead, example_model)"
  by (simp add: run_defs example_defs collision_def dagmc_ids_for_dim_def id_at_def ids_loop.simps)









section \<open>The end-to-end example of the specification\<close>

text \<open>
  One void volume (id 5) and one surface (id 7, no boundary tag), ids kept: the import
  adds exactly one cell with the id 5, the VOID material and no temperature, and one
  surface with the id 7 and no boundary condition.
\<close>

lemma end_to_end_void:
  "initialize example_env (example_universe False) example_mesh_void example_materials_only =
     Inr ((0, 0),
       \<lparr>cells = [\<lparr>cell_id = 5, cell_dag_index = 1, cell_universe = 2, cell_fill = - 1,
                 cell_material = [- 1], cell_sqrtkT = []\<rparr>],
        cell_map = [5 \<mapsto> 0],
        surfaces = [\<lparr>surf_id = 7, surf_dag_index = 1, surf_bc = None\<rparr>],
        surface_map = [7 \<mapsto> 0],
        materials = [\<lparr>mat_id = 7, mat_name = ''Steel'', mat_temperature = 600\<rparr>,
                     \<lparr>mat_id = 8, mat_name = ''Water'', mat_temperature = 0\<rparr>],
        material_map = [7 \<mapsto> 0, 8 \<mapsto> 1],
        overlap_check_count = [0]\<rparr>)"
  by (simp add: run_defs example_defs eval_nat_numeral)

end
